theory Spec2Isabelle
  imports Main "HOL-Library.Char_ord" "HOL-Library.List_Lexorder"
begin

section \<open>Python values, exceptions and effects\<close>

text \<open>
  Strings are lists of 8-bit characters, compared as Python compares \<open>str\<close>: code point
  by code point, a proper prefix being smaller (\<open>HOL-Library.List_Lexorder\<close> over
  \<open>HOL-Library.Char_ord\<close>).

  An exception is a value. \<open>Exc\<close> stands for an instance of \<open>Exception\<close>, the
  ones a clause \<open>except Exception\<close> catches; \<open>BaseExc\<close> stands for an instance of
  \<open>BaseException\<close> that is not an \<open>Exception\<close> (\<open>KeyboardInterrupt\<close>,
  \<open>SystemExit\<close>, \<open>asyncio.CancelledError\<close>), which such a clause lets through.
  The string is what \<open>str(e)\<close> gives.
\<close>

datatype py_exc = Exc string | BaseExc string

fun is_Exception :: "py_exc \<Rightarrow> bool" where
  "is_Exception (Exc _) = True"
| "is_Exception (BaseExc _) = False"

fun str_exc :: "py_exc \<Rightarrow> string" where
  "str_exc (Exc m) = m"
| "str_exc (BaseExc m) = m"

text \<open>
  A computation takes the state and returns either the exception it raised or its value,
  with the state it left behind. \<open>await\<close> runs the awaited coroutine to its end before the
  caller goes on (one logical request at a time), so it is sequencing.
\<close>

type_synonym ('a, 's) py = "'s \<Rightarrow> (py_exc + 'a) \<times> 's"

definition ret :: "'a \<Rightarrow> ('a, 's) py" where
  "ret a s = (Inr a, s)"

definition raise :: "py_exc \<Rightarrow> ('a, 's) py" where
  "raise e s = (Inl e, s)"

definition bnd :: "('a, 's) py \<Rightarrow> ('a \<Rightarrow> ('b, 's) py) \<Rightarrow> ('b, 's) py" where
  "bnd m f s = (case m s of (Inl e, s') \<Rightarrow> (Inl e, s') | (Inr a, s') \<Rightarrow> f a s')"

text \<open>\<^verbatim>\<open>try: m  except Exception as e: h(e)\<close>\<close>

definition try_except_Exception :: "('a, 's) py \<Rightarrow> (py_exc \<Rightarrow> ('a, 's) py) \<Rightarrow> ('a, 's) py" where
  "try_except_Exception m h s =
     (case m s of
        (Inl e, s') \<Rightarrow> if is_Exception e then h e s' else (Inl e, s')
      | (Inr a, s') \<Rightarrow> (Inr a, s'))"

text \<open>A pure library call that may raise.\<close>

definition lift :: "py_exc + 'a \<Rightarrow> ('a, 's) py" where
  "lift r s = (r, s)"

subsection \<open>Decimal numerals\<close>

definition digit_char :: "int \<Rightarrow> char" where
  "digit_char d = char_of (48 + d)"

function str_nonneg :: "int \<Rightarrow> string" where
  "str_nonneg n =
     (if n < 10 then [digit_char n] else str_nonneg (n div 10) @ [digit_char (n mod 10)])"
  by pat_completeness auto
termination
  by (relation "measure nat") auto

declare str_nonneg.simps [simp del]

definition str_int :: "int \<Rightarrow> string" where
  "str_int i = (if i < 0 then CHR ''-'' # str_nonneg (- i) else str_nonneg i)"

definition is_digit :: "char \<Rightarrow> bool" where
  "is_digit c = (CHR ''0'' \<le> c \<and> c \<le> CHR ''9'')"

definition digit_val :: "char \<Rightarrow> int" where
  "digit_val c = int (of_char c) - 48"

subsection \<open>datetime\<close>

text \<open>
  A naive \<open>datetime\<close>, with the fields Python stores. The calendar arithmetic is the one
  of the \<open>datetime\<close> module: the proleptic Gregorian ordinal, day 1 being 0001-01-01.
\<close>

datatype datetime = Datetime (dt_year: int) (dt_month: int) (dt_day: int)
  (dt_hour: int) (dt_minute: int) (dt_second: int) (dt_microsecond: int)

definition is_leap :: "int \<Rightarrow> bool" where
  "is_leap y = (y mod 4 = 0 \<and> (y mod 100 \<noteq> 0 \<or> y mod 400 = 0))"

definition days_in_month :: "int \<Rightarrow> int \<Rightarrow> int" where
  "days_in_month y m =
     (if m = 2 then (if is_leap y then 29 else 28)
      else if m = 4 \<or> m = 6 \<or> m = 9 \<or> m = 11 then 30 else 31)"

definition days_before_year :: "int \<Rightarrow> int" where
  "days_before_year year = (let y = year - 1 in y * 365 + y div 4 - y div 100 + y div 400)"

definition DAYS_BEFORE_MONTH :: "int \<Rightarrow> int" where
  "DAYS_BEFORE_MONTH m =
     (if m = 1 then 0 else if m = 2 then 31 else if m = 3 then 59 else if m = 4 then 90
      else if m = 5 then 120 else if m = 6 then 151 else if m = 7 then 181
      else if m = 8 then 212 else if m = 9 then 243 else if m = 10 then 273
      else if m = 11 then 304 else 334)"

definition days_before_month :: "int \<Rightarrow> int \<Rightarrow> int" where
  "days_before_month y m = DAYS_BEFORE_MONTH m + (if m > 2 \<and> is_leap y then 1 else 0)"

definition ymd2ord :: "int \<Rightarrow> int \<Rightarrow> int \<Rightarrow> int" where
  "ymd2ord y m d = days_before_year y + days_before_month y m + d"

definition toordinal :: "datetime \<Rightarrow> int" where
  "toordinal t = ymd2ord (dt_year t) (dt_month t) (dt_day t)"

definition MAXORDINAL :: int where
  "MAXORDINAL = 3652059"

definition ord2ymd :: "int \<Rightarrow> int \<times> int \<times> int" where
  "ord2ymd n0 =
     (let n = n0 - 1;
          n400 = n div 146097; n = n mod 146097;
          year = n400 * 400 + 1;
          n100 = n div 36524; n = n mod 36524;
          n4 = n div 1461; n = n mod 1461;
          n1 = n div 365; n = n mod 365;
          year = year + n100 * 100 + n4 * 4 + n1
      in if n1 = 4 \<or> n100 = 4 then (year - 1, 12, 31)
         else
           let leapyear = (n1 = 3 \<and> (n4 \<noteq> 24 \<or> n100 = 3));
               month = (n + 50) div 32;
               preceding = DAYS_BEFORE_MONTH month + (if month > 2 \<and> leapyear then 1 else 0)
           in if preceding > n
              then let month = month - 1;
                       preceding = preceding
                         - (days_in_month 1 month + (if month = 2 \<and> leapyear then 1 else 0))
                   in (year, month, n - preceding + 1)
              else (year, month, n - preceding + 1))"

text \<open>
  \<open>timedelta(days=n)\<close> accepts \<open>|n| \<le> 999999999\<close>. \<open>t - timedelta(days=n)\<close> keeps
  the time of day and moves the date by whole days; outside years 1 to 9999 it raises
  \<open>OverflowError\<close>.
\<close>

definition timedelta_days :: "int \<Rightarrow> py_exc + int" where
  "timedelta_days n =
     (if \<bar>n\<bar> \<le> 999999999 then Inr n
      else Inl (Exc ''days out of range for timedelta''))"

definition datetime_sub_days :: "datetime \<Rightarrow> int \<Rightarrow> py_exc + datetime" where
  "datetime_sub_days t n =
     (let days = toordinal t - n
      in if 0 < days \<and> days \<le> MAXORDINAL
         then (case ord2ymd days of
                 (y, m, d) \<Rightarrow> Inr (Datetime y m d (dt_hour t) (dt_minute t) (dt_second t)
                                     (dt_microsecond t)))
         else Inl (Exc ''date value out of range''))"

text \<open>\<open>(a - b).days\<close>: the difference in microseconds, floored to whole days.\<close>

definition microseconds_of :: "datetime \<Rightarrow> int" where
  "microseconds_of t =
     ((toordinal t * 86400 + dt_hour t * 3600 + dt_minute t * 60 + dt_second t) * 1000000
      + dt_microsecond t)"

definition sub_days :: "datetime \<Rightarrow> datetime \<Rightarrow> int" where
  "sub_days a b = (microseconds_of a - microseconds_of b) div 86400000000"

text \<open>
  \<open>strftime("%Y-%m-%d")\<close>: the year on four digits, month and day on two (years below
  1000 are padded as the C library of the platform pads them; they are padded with zeros
  here).
\<close>

definition pad2 :: "int \<Rightarrow> string" where
  "pad2 n = [digit_char (n div 10 mod 10), digit_char (n mod 10)]"

definition pad4 :: "int \<Rightarrow> string" where
  "pad4 n = [digit_char (n div 1000 mod 10), digit_char (n div 100 mod 10),
             digit_char (n div 10 mod 10), digit_char (n mod 10)]"

definition strftime_ymd :: "datetime \<Rightarrow> string" where
  "strftime_ymd t = pad4 (dt_year t) @ ''-'' @ pad2 (dt_month t) @ ''-'' @ pad2 (dt_day t)"

text \<open>
  \<open>datetime.strptime(s, "%Y-%m-%d")\<close>. The module matches the regular expression
  \<^verbatim>\<open>(\d\d\d\d)-(1[0-2]|0[1-9]|[1-9])-(3[01]|[12]\d|0[1-9]|[1-9]| [1-9])\<close> at the start
  of \<open>s\<close>, raises \<open>ValueError\<close> when it does not match or when text remains after the
  match, and then builds the date, which raises \<open>ValueError\<close> for year 0 and for a day
  the month does not have.
\<close>

fun parse_Y :: "string \<Rightarrow> (int \<times> string) option" where
  "parse_Y (a # b # c # d # r) =
     (if is_digit a \<and> is_digit b \<and> is_digit c \<and> is_digit d
      then Some (digit_val a * 1000 + digit_val b * 100 + digit_val c * 10 + digit_val d, r)
      else None)"
| "parse_Y _ = None"

definition is_digit19 :: "char \<Rightarrow> bool" where
  "is_digit19 c = (CHR ''1'' \<le> c \<and> c \<le> CHR ''9'')"

fun parse_m :: "string \<Rightarrow> (int \<times> string) option" where
  "parse_m [] = None"
| "parse_m [a] = (if is_digit19 a then Some (digit_val a, []) else None)"
| "parse_m (a # b # r) =
     (if a = CHR ''1'' \<and> CHR ''0'' \<le> b \<and> b \<le> CHR ''2'' then Some (10 + digit_val b, r)
      else if a = CHR ''0'' \<and> is_digit19 b then Some (digit_val b, r)
      else if is_digit19 a then Some (digit_val a, b # r)
      else None)"

fun parse_d :: "string \<Rightarrow> (int \<times> string) option" where
  "parse_d [] = None"
| "parse_d [a] = (if is_digit19 a then Some (digit_val a, []) else None)"
| "parse_d (a # b # r) =
     (if a = CHR ''3'' \<and> CHR ''0'' \<le> b \<and> b \<le> CHR ''1'' then Some (30 + digit_val b, r)
      else if CHR ''1'' \<le> a \<and> a \<le> CHR ''2'' \<and> is_digit b
        then Some (digit_val a * 10 + digit_val b, r)
      else if a = CHR ''0'' \<and> is_digit19 b then Some (digit_val b, r)
      else if is_digit19 a then Some (digit_val a, b # r)
      else if a = CHR '' '' \<and> is_digit19 b then Some (digit_val b, r)
      else None)"

fun expect_dash :: "string \<Rightarrow> string option" where
  "expect_dash (c # r) = (if c = CHR ''-'' then Some r else None)"
| "expect_dash [] = None"

definition strptime_ymd :: "string \<Rightarrow> py_exc + datetime" where
  "strptime_ymd s =
     (case parse_Y s of
        None \<Rightarrow> Inl (Exc ''time data does not match format'')
      | Some (y, r1) \<Rightarrow>
     (case expect_dash r1 of
        None \<Rightarrow> Inl (Exc ''time data does not match format'')
      | Some r2 \<Rightarrow>
     (case parse_m r2 of
        None \<Rightarrow> Inl (Exc ''time data does not match format'')
      | Some (m, r3) \<Rightarrow>
     (case expect_dash r3 of
        None \<Rightarrow> Inl (Exc ''time data does not match format'')
      | Some r4 \<Rightarrow>
     (case parse_d r4 of
        None \<Rightarrow> Inl (Exc ''time data does not match format'')
      | Some (d, r5) \<Rightarrow>
          if r5 \<noteq> [] then Inl (Exc ''unconverted data remains'')
          else if y < 1 then Inl (Exc ''year is out of range'')
          else if d > days_in_month y m then Inl (Exc ''day is out of range for month'')
          else Inr (Datetime y m d 0 0 0 0))))))"

section \<open>Data\<close>

text \<open>
  \<open>Any\<close>: the payloads the providers hand over are carried, never inspected, except that an
  article's \<open>time\<close> is formatted. A \<open>dict\<close> is an association list with distinct keys in
  insertion order; \<open>Dict[str, Any]\<close> is the result type of every fetch.
\<close>

datatype pyval = PyNone | PyBool bool | PyInt int | PyStr string | PyOpaque string
  | PyDatetime datetime | PyList "pyval list" | PyDict "(string \<times> pyval) list"

type_synonym 'v pydict = "(string \<times> 'v) list"

type_synonym result = "pyval pydict"

text \<open>\<open>d[k] = v\<close>: an existing key keeps its place, a new one goes last.\<close>

fun dict_set :: "string \<Rightarrow> 'v \<Rightarrow> 'v pydict \<Rightarrow> 'v pydict" where
  "dict_set k v [] = [(k, v)]"
| "dict_set k v ((k', v') # kvs) =
     (if k' = k then (k, v) # kvs else (k', v') # dict_set k v kvs)"

text \<open>\<open>d[k].append(v)\<close> for a key that is present.\<close>

definition dict_append :: "string \<Rightarrow> 'v \<Rightarrow> ('v list) pydict \<Rightarrow> ('v list) pydict" where
  "dict_append k v g = map (\<lambda>(k', l). if k' = k then (k', l @ [v]) else (k', l)) g"

definition dict_keys :: "'v pydict \<Rightarrow> string list" where
  "dict_keys g = map fst g"

text \<open>\<open>kwargs.get(k, default)\<close>\<close>

definition dict_get_default :: "'v pydict \<Rightarrow> string \<Rightarrow> 'v \<Rightarrow> 'v" where
  "dict_get_default g k d = (case map_of g k of None \<Rightarrow> d | Some v \<Rightarrow> v)"

subsection \<open>The objects of the broker client library\<close>

datatype contract = Contract (secType: string) (conId: int) (symbol: string)
  (exchange: string) (currency: string)

datatype contract_details = ContractDetails (cd_contract: contract) (longName: pyval)
  (industry: pyval) (category: pyval) (subcategory: pyval) (timeZoneId: pyval)
  (tradingHours: pyval) (liquidHours: pyval) (evRule: pyval) (evMultiplier: pyval)
  (minTick: pyval) (orderTypes: pyval) (validExchanges: pyval) (underConId: pyval)
  (marketRuleIds: pyval)

datatype news_provider = NewsProvider (code: string) (name: string)

datatype historical_news = HistoricalNews (hn_time: datetime) (hn_providerCode: string)
  (hn_articleId: string) (hn_headline: string)

datatype bar_data = BarData (bar_date: datetime) (bar_open: pyval) (bar_high: pyval)
  (bar_low: pyval) (bar_close: pyval) (bar_volume: pyval) (bar_average: pyval)
  (bar_barCount: pyval)

datatype ticker_data = Ticker (tk_contract: contract) (tk_bid: pyval) (tk_ask: pyval)
  (tk_last: pyval) (tk_lastSize: pyval) (tk_volume: pyval) (tk_high: pyval) (tk_low: pyval)
  (tk_close: pyval) (tk_halted: pyval) (tk_bidSize: pyval) (tk_askSize: pyval)
  (tk_time: pyval)

subsection \<open>What a run does to the outside\<close>

datatype level = INFO | WARNING | ERROR

datatype event =
    Log level string
  | Now datetime
  | ConnectAsync string int int int
  | Disconnect
  | ReqContractDetails contract
  | ReqNewsProviders
  | ReqHistoricalNews int string datetime datetime nat
  | ReqHistoricalData contract string pyval pyval pyval bool int
  | ReqFundamentalData contract string
  | ReqMktData contract string bool bool
  | Sleep nat
  | TickerLookup contract
  | FetchIbkr string string string string "pyval pydict"
  | FetchFinnhub string string string string string "string option"

text \<open>
  The configuration mapping (\<open>get_config()\<close>; the module that holds it is outside the
  sources at hand, so the mapping is a parameter). \<open>None\<close> is an absent key.
\<close>

record config =
  cfg_data_source :: "string option"
  cfg_enable_fallback :: "bool option"
  cfg_ibkr_host :: "string option"
  cfg_ibkr_port :: "int option"
  cfg_ibkr_client_id :: "int option"
  cfg_ibkr_timeout :: "int option"

definition config_get :: "'a option \<Rightarrow> 'a \<Rightarrow> 'a" where
  "config_get v d = (case v of None \<Rightarrow> d | Some x \<Rightarrow> x)"

text \<open>
  The collaborators are black boxes: the broker gateway behind the client library, the
  clock, and the file-backed secondary provider (\<open>finnhub_utils.get_data_in_range\<close>, also
  outside the sources at hand). Each operation reads and changes an outside world
  \<open>'w\<close> and may raise.
\<close>

record 'w env =
  get_config :: config
  DATA_DIR :: string
  IB_connectAsync :: "string \<Rightarrow> int \<Rightarrow> int \<Rightarrow> int \<Rightarrow> (unit, 'w) py"
  IB_disconnect :: "(unit, 'w) py"
  IB_reqContractDetailsAsync :: "contract \<Rightarrow> (contract_details list, 'w) py"
  IB_reqNewsProvidersAsync :: "(news_provider list, 'w) py"
  IB_reqHistoricalNewsAsync ::
    "int \<Rightarrow> string \<Rightarrow> datetime \<Rightarrow> datetime \<Rightarrow> nat \<Rightarrow> (historical_news list, 'w) py"
  IB_reqHistoricalDataAsync ::
    "contract \<Rightarrow> string \<Rightarrow> pyval \<Rightarrow> pyval \<Rightarrow> pyval \<Rightarrow> bool \<Rightarrow> int \<Rightarrow> (bar_data list, 'w) py"
  IB_reqFundamentalDataAsync :: "contract \<Rightarrow> string \<Rightarrow> (pyval, 'w) py"
  IB_reqMktData :: "contract \<Rightarrow> string \<Rightarrow> bool \<Rightarrow> bool \<Rightarrow> (unit, 'w) py"
  IB_ticker :: "contract \<Rightarrow> (ticker_data option, 'w) py"
  asyncio_sleep :: "nat \<Rightarrow> (unit, 'w) py"
  datetime_now :: "'w \<Rightarrow> datetime \<times> 'w"
  get_finnhub_data_in_range ::
    "string \<Rightarrow> string \<Rightarrow> string \<Rightarrow> string \<Rightarrow> string \<Rightarrow> string option \<Rightarrow> (result, 'w) py"

text \<open>
  The state of a run: the outside world and the trace of what was asked of it, in order.
  A method of \<open>IBKRConnection\<close> runs on the state extended by \<open>self\<close>; a function of the
  modules runs on the state extended by the two module globals.
\<close>

record 'w io =
  world :: 'w
  trace :: "event list"

record IBKRConnection =
  host :: string
  port :: int
  client_id :: int
  timeout :: int
  connected :: bool

record DataSourceManager =
  primary_source :: string
  enable_fallback :: bool

record 'w conn_st = "'w io" +
  self :: IBKRConnection

record 'w module_st = "'w io" +
  ibkr_connection :: "IBKRConnection option"
  data_source_manager :: "DataSourceManager option"

definition ext :: "event \<Rightarrow> ('a, 'w) py \<Rightarrow> ('a, ('w, 'z) io_scheme) py" where
  "ext ev op s =
     (case op (world s) of (r, w') \<Rightarrow> (r, s\<lparr>world := w', trace := trace s @ [ev]\<rparr>))"

definition logger :: "level \<Rightarrow> string \<Rightarrow> (unit, ('w, 'z) io_scheme) py" where
  "logger l m s = (Inr (), s\<lparr>trace := trace s @ [Log l m]\<rparr>)"

definition now :: "'w env \<Rightarrow> (datetime, ('w, 'z) io_scheme) py" where
  "now E s =
     (case datetime_now E (world s) of
        (t, w') \<Rightarrow> (Inr t, s\<lparr>world := w', trace := trace s @ [Now t]\<rparr>))"

definition record_event :: "event \<Rightarrow> (unit, ('w, 'z) io_scheme) py" where
  "record_event ev s = (Inr (), s\<lparr>trace := trace s @ [ev]\<rparr>)"

definition get_self :: "(IBKRConnection, 'w conn_st) py" where
  "get_self s = (Inr (self s), s)"

definition set_connected :: "bool \<Rightarrow> (unit, 'w conn_st) py" where
  "set_connected b s = (Inr (), s\<lparr>self := (self s)\<lparr>connected := b\<rparr>\<rparr>)"

definition read_ibkr_connection :: "(IBKRConnection option, 'w module_st) py" where
  "read_ibkr_connection s = (Inr (ibkr_connection s), s)"

definition write_ibkr_connection :: "IBKRConnection option \<Rightarrow> (unit, 'w module_st) py" where
  "write_ibkr_connection v s = (Inr (), s\<lparr>ibkr_connection := v\<rparr>)"



section \<open>ibkr\_utils.py\<close>

subsection \<open>class IBKRConnection\<close>

definition IBKRConnection_init :: "'w env \<Rightarrow> IBKRConnection" where
  "IBKRConnection_init E =
     \<lparr>host = config_get (cfg_ibkr_host (get_config E)) ''127.0.0.1'',
      port = config_get (cfg_ibkr_port (get_config E)) 7497,
      client_id = config_get (cfg_ibkr_client_id (get_config E)) 1,
      timeout = config_get (cfg_ibkr_timeout (get_config E)) 30,
      connected = False\<rparr>"

definition connect :: "'w env \<Rightarrow> (unit, 'w conn_st) py" where
  "connect E =
     bnd get_self
       (\<lambda>c. try_except_Exception
              (bnd (ext (ConnectAsync (host c) (port c) (client_id c) (timeout c))
                      (IB_connectAsync E (host c) (port c) (client_id c) (timeout c)))
                 (\<lambda>_. bnd (set_connected True)
                 (\<lambda>_. logger INFO (''Connected to IBKR at '' @ host c @ '':''
                                     @ str_int (port c)))))
              (\<lambda>e. bnd (logger ERROR (''Failed to connect to IBKR: '' @ str_exc e))
                 (\<lambda>_. bnd (set_connected False)
                 (\<lambda>_. raise e))))"

definition disconnect :: "'w env \<Rightarrow> (unit, 'w conn_st) py" where
  "disconnect E =
     bnd get_self
       (\<lambda>c. if connected c
            then bnd (ext Disconnect (IB_disconnect E))
                   (\<lambda>_. bnd (set_connected False)
                   (\<lambda>_. logger INFO ''Disconnected from IBKR''))
            else ret ())"

definition get_contract :: "string \<Rightarrow> string \<Rightarrow> contract" where
  "get_contract ticker exch = Contract ''STK'' 0 ticker exch ''USD''"

text \<open>\<^verbatim>\<open>if not self.connected: await self.connect()\<close>, the first statement of every getter.\<close>

definition connect_unless_connected :: "'w env \<Rightarrow> (unit, 'w conn_st) py" where
  "connect_unless_connected E =
     bnd get_self (\<lambda>c. if \<not> connected c then connect E else ret ())"

text \<open>
  \<open>util.df(bars)\<close> of the client library gives \<open>None\<close> for an empty list of bars and a
  data frame, one row per bar, otherwise.
\<close>

definition util_df :: "bar_data list \<Rightarrow> bar_data list option" where
  "util_df bars = (if bars = [] then None else Some bars)"

definition get_historical_data ::
  "'w env \<Rightarrow> string \<Rightarrow> pyval \<Rightarrow> pyval \<Rightarrow> pyval \<Rightarrow> (bar_data list option, 'w conn_st) py" where
  "get_historical_data E ticker duration bar_size what_to_show =
     bnd (connect_unless_connected E)
       (\<lambda>_. let contract = get_contract ticker ''SMART''
             in bnd (ext (ReqHistoricalData contract [] duration bar_size what_to_show True 1)
                       (IB_reqHistoricalDataAsync E contract [] duration bar_size what_to_show
                          True 1))
                  (\<lambda>bars. ret (util_df bars)))"

definition news_article_dict :: "historical_news \<Rightarrow> pyval pydict" where
  "news_article_dict article =
     [(''time'', PyDatetime (hn_time article)),
      (''providerCode'', PyStr (hn_providerCode article)),
      (''articleId'', PyStr (hn_articleId article)),
      (''headline'', PyStr (hn_headline article))]"

definition get_news_articles :: "'w env \<Rightarrow> string \<Rightarrow> int \<Rightarrow> (pyval pydict list, 'w conn_st) py" where
  "get_news_articles E ticker days_back =
     bnd (connect_unless_connected E)
       (\<lambda>_. let contract = get_contract ticker ''SMART''
             in bnd (ext (ReqContractDetails contract) (IB_reqContractDetailsAsync E contract))
                  (\<lambda>contract_details.
                     case contract_details of
                       [] \<Rightarrow> ret []
                     | detail # _ \<Rightarrow>
                         try_except_Exception
                           (bnd (ext ReqNewsProviders (IB_reqNewsProvidersAsync E))
                              (\<lambda>providers.
                                 case providers of
                                   [] \<Rightarrow> ret []
                                 | provider # _ \<Rightarrow>
                                     let provider_code = code provider
                                     in bnd (now E)
                                     (\<lambda>t1. bnd (lift (timedelta_days days_back))
                                     (\<lambda>delta. bnd (lift (datetime_sub_days t1 delta))
                                     (\<lambda>startDateTime. bnd (now E)
                                     (\<lambda>endDateTime.
                                        bnd (ext (ReqHistoricalNews (conId (cd_contract detail))
                                                    provider_code startDateTime endDateTime 100)
                                               (IB_reqHistoricalNewsAsync E
                                                    (conId (cd_contract detail))
                                                    provider_code startDateTime endDateTime 100))
                                     (\<lambda>articles. ret (map news_article_dict articles))))))))
                           (\<lambda>e. bnd (logger WARNING (''Failed to get news for '' @ ticker @ '': ''
                                                     @ str_exc e))
                              (\<lambda>_. ret []))))"

definition get_company_info :: "'w env \<Rightarrow> string \<Rightarrow> (pyval pydict, 'w conn_st) py" where
  "get_company_info E ticker =
     bnd (connect_unless_connected E)
       (\<lambda>_. let contract = get_contract ticker ''SMART''
             in bnd (ext (ReqContractDetails contract) (IB_reqContractDetailsAsync E contract))
                  (\<lambda>contract_details.
                     case contract_details of
                       [] \<Rightarrow> ret []
                     | detail # _ \<Rightarrow>
                         ret [(''symbol'', PyStr (symbol (cd_contract detail))),
                              (''exchange'', PyStr (exchange (cd_contract detail))),
                              (''currency'', PyStr (currency (cd_contract detail))),
                              (''longName'', longName detail),
                              (''industry'', industry detail),
                              (''category'', category detail),
                              (''subcategory'', subcategory detail),
                              (''timeZoneId'', timeZoneId detail),
                              (''tradingHours'', tradingHours detail),
                              (''liquidHours'', liquidHours detail),
                              (''evRule'', evRule detail),
                              (''evMultiplier'', evMultiplier detail),
                              (''minTick'', minTick detail),
                              (''orderTypes'', orderTypes detail),
                              (''validExchanges'', validExchanges detail),
                              (''underConId'', underConId detail),
                              (''marketRuleIds'', marketRuleIds detail)]))"

definition get_fundamentals :: "'w env \<Rightarrow> string \<Rightarrow> (pyval pydict, 'w conn_st) py" where
  "get_fundamentals E ticker =
     bnd (connect_unless_connected E)
       (\<lambda>_. let contract = get_contract ticker ''SMART''
             in try_except_Exception
                  (bnd (ext (ReqFundamentalData contract ''ReportSnapshot'')
                          (IB_reqFundamentalDataAsync E contract ''ReportSnapshot''))
                     (\<lambda>fundamental_data. ret [(''fundamentals'', fundamental_data)]))
                  (\<lambda>e. bnd (logger WARNING (''Failed to get fundamentals for '' @ ticker @ '': ''
                                            @ str_exc e))
                     (\<lambda>_. ret [])))"

definition get_real_time_data :: "'w env \<Rightarrow> string \<Rightarrow> (pyval pydict, 'w conn_st) py" where
  "get_real_time_data E ticker =
     bnd (connect_unless_connected E)
       (\<lambda>_. let contract = get_contract ticker ''SMART''
             in bnd (ext (ReqMktData contract [] False False)
                       (IB_reqMktData E contract [] False False))
               (\<lambda>_. bnd (ext (Sleep 2) (asyncio_sleep E 2))
               (\<lambda>_. bnd (ext (TickerLookup contract) (IB_ticker E contract))
               (\<lambda>ticker_data.
                  case ticker_data of
                    None \<Rightarrow> ret []
                  | Some td \<Rightarrow>
                      ret [(''symbol'', PyStr (symbol (tk_contract td))),
                           (''bid'', tk_bid td),
                           (''ask'', tk_ask td),
                           (''last'', tk_last td),
                           (''lastSize'', tk_lastSize td),
                           (''volume'', tk_volume td),
                           (''high'', tk_high td),
                           (''low'', tk_low td),
                           (''close'', tk_close td),
                           (''halted'', tk_halted td),
                           (''bidSize'', tk_bidSize td),
                           (''askSize'', tk_askSize td),
                           (''time'', tk_time td)]))))"

subsection \<open>The module-level connection\<close>

definition get_ibkr_connection :: "'w env \<Rightarrow> (IBKRConnection, 'w module_st) py" where
  "get_ibkr_connection E =
     bnd read_ibkr_connection
       (\<lambda>g. case g of
              None \<Rightarrow> (let c = IBKRConnection_init E
                       in bnd (write_ibkr_connection (Some c)) (\<lambda>_. ret c))
            | Some c \<Rightarrow> ret c)"

text \<open>
  A method call on the object the global refers to: the method runs with that object as
  \<open>self\<close>, and what it did to the object is seen through the global afterwards.
\<close>

definition call_method :: "IBKRConnection \<Rightarrow> ('a, 'w conn_st) py \<Rightarrow> ('a, 'w module_st) py" where
  "call_method c m s =
     (case m \<lparr>world = world s, trace = trace s, self = c\<rparr> of
        (r, cs) \<Rightarrow>
          (r, s\<lparr>world := world cs, trace := trace cs, ibkr_connection := Some (self cs)\<rparr>))"

subsection \<open>get\_ibkr\_data\_in\_range\<close>

text \<open>\<^verbatim>\<open>article['time'].strftime("%Y-%m-%d")\<close>\<close>

definition article_date_str :: "pyval pydict \<Rightarrow> py_exc + string" where
  "article_date_str article =
     (case map_of article ''time'' of
        None \<Rightarrow> Inl (Exc ''KeyError: time'')
      | Some (PyDatetime t) \<Rightarrow> Inr (strftime_ymd t)
      | Some _ \<Rightarrow> Inl (Exc ''AttributeError: strftime''))"

fun group_articles ::
  "string \<Rightarrow> string \<Rightarrow> pyval pydict list \<Rightarrow> (pyval list) pydict \<Rightarrow> py_exc + (pyval list) pydict"
where
  "group_articles start_date end_date [] grouped_data = Inr grouped_data"
| "group_articles start_date end_date (article # articles) grouped_data =
     (case article_date_str article of
        Inl e \<Rightarrow> Inl e
      | Inr date_str \<Rightarrow>
          group_articles start_date end_date articles
            (if start_date \<le> date_str \<and> date_str \<le> end_date
             then dict_append date_str (PyDict article)
                    (if date_str \<notin> set (dict_keys grouped_data)
                     then dict_set date_str [] grouped_data else grouped_data)
             else grouped_data))"

definition row_to_dict :: "string \<Rightarrow> bar_data \<Rightarrow> pyval" where
  "row_to_dict date_str row =
     PyDict [(''date'', PyStr date_str), (''open'', bar_open row), (''high'', bar_high row),
             (''low'', bar_low row), (''close'', bar_close row), (''volume'', bar_volume row),
             (''average'', bar_average row), (''barCount'', bar_barCount row)]"

text \<open>
  The \<open>historical\<close> branch on a data frame with rows: the \<open>date\<close> column is
  rewritten to \<open>%Y-%m-%d\<close> strings, the rows in the range are kept, and each row is
  stored under its date, a later row of the same date replacing the earlier one.
\<close>

definition group_rows :: "string \<Rightarrow> string \<Rightarrow> bar_data list \<Rightarrow> result" where
  "group_rows start_date end_date df =
     (let dated = map (\<lambda>row. (strftime_ymd (bar_date row), row)) df;
          filtered_df = filter (\<lambda>(date_str, row). date_str \<ge> start_date \<and> date_str \<le> end_date)
                          dated
      in foldl (\<lambda>grouped_data (date_str, row).
                  dict_set date_str (row_to_dict date_str row) grouped_data) [] filtered_df)"

definition get_ibkr_data_in_range ::
  "'w env \<Rightarrow> string \<Rightarrow> string \<Rightarrow> string \<Rightarrow> string \<Rightarrow> pyval pydict \<Rightarrow> (result, 'w module_st) py"
where
  "get_ibkr_data_in_range E ticker start_date end_date data_type kwargs =
     bnd (get_ibkr_connection E)
       (\<lambda>conn.
          try_except_Exception
            (if data_type = ''news'' then
               bnd (lift (strptime_ymd start_date))
               (\<lambda>start_dt. bnd (lift (strptime_ymd end_date))
               (\<lambda>end_dt. let days_back = sub_days end_dt start_dt
                 in bnd (call_method conn (get_news_articles E ticker days_back))
               (\<lambda>articles. bnd (lift (group_articles start_date end_date articles []))
               (\<lambda>grouped_data. ret (map (\<lambda>(k, l). (k, PyList l)) grouped_data)))))
             else if data_type = ''historical'' then
               let duration = dict_get_default kwargs ''duration'' (PyStr ''1 Y'');
                   bar_size = dict_get_default kwargs ''bar_size'' (PyStr ''1 day'');
                   what_to_show = dict_get_default kwargs ''what_to_show'' (PyStr ''TRADES'')
               in bnd (call_method conn
                         (get_historical_data E ticker duration bar_size what_to_show))
                    (\<lambda>df. case df of
                            None \<Rightarrow> raise (Exc ''AttributeError: empty'')
                          | Some rows \<Rightarrow>
                              if rows \<noteq> [] then ret (group_rows start_date end_date rows)
                              else ret [])
             else if data_type = ''fundamentals'' then
               bnd (call_method conn (get_fundamentals E ticker))
                 (\<lambda>fundamental_data.
                    ret (if fundamental_data \<noteq> [] then [(end_date, PyDict fundamental_data)]
                         else []))
             else if data_type = ''company_info'' then
               bnd (call_method conn (get_company_info E ticker))
                 (\<lambda>company_info.
                    ret (if company_info \<noteq> [] then [(end_date, PyDict company_info)] else []))
             else if data_type = ''real_time'' then
               bnd (call_method conn (get_real_time_data E ticker))
                 (\<lambda>real_time_data.
                    ret (if real_time_data \<noteq> [] then [(end_date, PyDict real_time_data)]
                         else []))
             else
               bnd (logger WARNING (''Unknown data type: '' @ data_type))
                 (\<lambda>_. ret []))
            (\<lambda>e. bnd (logger ERROR (''Error fetching IBKR data: '' @ str_exc e))
               (\<lambda>_. raise e)))"

text \<open>
  \<open>asyncio.run\<close> runs the coroutine \<open>disconnect()\<close> to its end; what it raises
  is what reaches the \<open>try\<close> block here.
\<close>

definition cleanup_ibkr_connection :: "'w env \<Rightarrow> (unit, 'w module_st) py" where
  "cleanup_ibkr_connection E =
     bnd read_ibkr_connection
       (\<lambda>g. case g of
              None \<Rightarrow> ret ()
            | Some c \<Rightarrow>
                bnd (try_except_Exception
                       (call_method c (disconnect E))
                       (\<lambda>e. logger WARNING (''Error during IBKR cleanup: '' @ str_exc e)))
                  (\<lambda>_. write_ibkr_connection None))"

section \<open>data\_source\_manager.py\<close>

text \<open>
  A request as \<open>DataSourceManager.get_data_in_range\<close> receives it; \<open>data_dir\<close> and
  \<open>period\<close> default to \<open>None\<close>, \<open>kwargs\<close> holds the remaining keyword options.
\<close>

record request =
  ticker :: string
  start_date :: string
  end_date :: string
  data_type :: string
  data_dir :: "string option"
  period :: "string option"
  kwargs :: "pyval pydict"


text \<open>
  The two fetches, \<open>_get_ibkr_data\<close> and \<open>_get_finnhub_data\<close>. Each invocation is
  entered into the trace with the arguments it passes on.
\<close>

definition get_ibkr_data :: "'w env \<Rightarrow> request \<Rightarrow> (result, 'w module_st) py" where
  "get_ibkr_data E rq =
     bnd (record_event
            (FetchIbkr (ticker rq) (start_date rq) (end_date rq) (data_type rq) (kwargs rq)))
       (\<lambda>_. get_ibkr_data_in_range E (ticker rq) (start_date rq) (end_date rq) (data_type rq)
               (kwargs rq))"

definition get_finnhub_data :: "'w env \<Rightarrow> request \<Rightarrow> (result, 'w module_st) py" where
  "get_finnhub_data E rq =
     (let data_dir = (case data_dir rq of None \<Rightarrow> DATA_DIR E | Some d \<Rightarrow> d)
      in ext (FetchFinnhub (ticker rq) (start_date rq) (end_date rq) (data_type rq) data_dir
                (period rq))
           (get_finnhub_data_in_range E (ticker rq) (start_date rq) (end_date rq) (data_type rq)
                data_dir (period rq)))"

text \<open>
  How the first \<open>try\<close> block of \<open>get_data_in_range\<close> ends: by its \<open>return\<close>, or by
  going on with the locals \<open>primary_data\<close> and \<open>primary_error\<close> (\<open>None\<close> when unset).
\<close>

datatype primary_outcome = Return result | Continue "result option" "py_exc option"

text \<open>\<open>not primary_data\<close>: \<open>None\<close> and the empty mapping are false.\<close>

definition not_data :: "result option \<Rightarrow> bool" where
  "not_data d = (case d of None \<Rightarrow> True | Some r \<Rightarrow> r = [])"

definition get_data_in_range ::
  "'w env \<Rightarrow> DataSourceManager \<Rightarrow> request \<Rightarrow> (result, 'w module_st) py" where
  "get_data_in_range E mgr rq =
     bnd (try_except_Exception
            (bnd (if primary_source mgr = ''ibkr'' then get_ibkr_data E rq
                  else get_finnhub_data E rq)
               (\<lambda>primary_data.
                  if primary_data \<noteq> [] then
                    bnd (logger INFO (''Successfully fetched data from '' @ primary_source mgr))
                      (\<lambda>_. ret (Return primary_data))
                  else ret (Continue (Some primary_data) None)))
            (\<lambda>e. bnd (logger WARNING (''Failed to fetch data from '' @ primary_source mgr
                                      @ '': '' @ str_exc e))
               (\<lambda>_. ret (Continue None (Some e)))))
       (\<lambda>r. case r of
               Return primary_data \<Rightarrow> ret primary_data
             | Continue primary_data primary_error \<Rightarrow>
                 bnd (if enable_fallback mgr \<and> (not_data primary_data \<or> primary_error \<noteq> None)
                      then
                        try_except_Exception
                          (let fallback_source =
                                 (if primary_source mgr = ''ibkr'' then ''finnhub'' else ''ibkr'')
                           in bnd (logger INFO (''Attempting fallback to '' @ fallback_source))
                             (\<lambda>_. bnd (if fallback_source = ''ibkr'' then get_ibkr_data E rq
                                       else get_finnhub_data E rq)
                             (\<lambda>fallback_data.
                                if fallback_data \<noteq> [] then
                                  bnd (logger INFO
                                         (''Successfully fetched data from fallback source: ''
                                          @ fallback_source))
                                    (\<lambda>_. ret (Some fallback_data))
                                else ret None)))
                          (\<lambda>e. bnd (logger WARNING (''Fallback also failed: '' @ str_exc e))
                             (\<lambda>_. ret None))
                      else ret None)
                   (\<lambda>returned.
                      case returned of
                        Some fallback_data \<Rightarrow> ret fallback_data
                      | None \<Rightarrow>
                          (case primary_error of
                             Some e \<Rightarrow> raise e
                           | None \<Rightarrow> ret [])))"

definition cleanup :: "'w env \<Rightarrow> (unit, 'w module_st) py" where
  "cleanup E =
     try_except_Exception (cleanup_ibkr_connection E)
       (\<lambda>e. logger WARNING (''Error during cleanup: '' @ str_exc e))"



subsection \<open>Reading a trace\<close>

text \<open>
  The primary provider is the broker when \<open>primary_source\<close> is \<open>"ibkr"\<close> and the
  file-backed provider otherwise; the secondary provider is the other one.
\<close>

fun is_ibkr_fetch :: "event \<Rightarrow> bool" where
  "is_ibkr_fetch (FetchIbkr _ _ _ _ _) = True"
| "is_ibkr_fetch _ = False"

fun is_finnhub_fetch :: "event \<Rightarrow> bool" where
  "is_finnhub_fetch (FetchFinnhub _ _ _ _ _ _) = True"
| "is_finnhub_fetch _ = False"

definition primary_fetches :: "DataSourceManager \<Rightarrow> event list \<Rightarrow> event list" where
  "primary_fetches mgr tr =
     filter (if primary_source mgr = ''ibkr'' then is_ibkr_fetch else is_finnhub_fetch) tr"

definition secondary_fetches :: "DataSourceManager \<Rightarrow> event list \<Rightarrow> event list" where
  "secondary_fetches mgr tr =
     filter (if primary_source mgr = ''ibkr'' then is_finnhub_fetch else is_ibkr_fetch) tr"

text \<open>The fetch that plays primary, and the one that plays secondary, for a manager.\<close>

definition primary_fetch :: "'w env \<Rightarrow> DataSourceManager \<Rightarrow> request \<Rightarrow> (result, 'w module_st) py" where
  "primary_fetch E mgr rq =
     (if primary_source mgr = ''ibkr'' then get_ibkr_data E rq else get_finnhub_data E rq)"

definition secondary_fetch :: "'w env \<Rightarrow> DataSourceManager \<Rightarrow> request \<Rightarrow> (result, 'w module_st) py" where
  "secondary_fetch E mgr rq =
     (if primary_source mgr = ''ibkr'' then get_finnhub_data E rq else get_ibkr_data E rq)"

text \<open>The events a run added to the trace it started from.\<close>

definition added :: "('w, 'z) io_scheme \<Rightarrow> ('w, 'z) io_scheme \<Rightarrow> event list" where
  "added s s' = drop (length (trace s)) (trace s')"

section \<open>Auxiliary definitions for the statements\<close>

text \<open>The state after one line is logged.\<close>

definition logged :: "level \<Rightarrow> string \<Rightarrow> ('w, 'z) io_scheme \<Rightarrow> ('w, 'z) io_scheme" where
  "logged l m s = s\<lparr>trace := trace s @ [Log l m]\<rparr>"

text \<open>
  \<open>get_data_in_range\<close> written out case by case, in terms of the two fetches: \<open>flat\<close>
  is proved equal to it below, and the properties are read off \<open>flat\<close>.
\<close>

definition fallback_source :: "DataSourceManager \<Rightarrow> string" where
  "fallback_source mgr = (if primary_source mgr = ''ibkr'' then ''finnhub'' else ''ibkr'')"

definition finish :: "py_exc option \<Rightarrow> (result, 's) py" where
  "finish primary_error = (case primary_error of Some e \<Rightarrow> raise e | None \<Rightarrow> ret [])"

definition fallback_part ::
  "'w env \<Rightarrow> DataSourceManager \<Rightarrow> request \<Rightarrow> py_exc option \<Rightarrow> (result, 'w module_st) py" where
  "fallback_part E mgr rq primary_error s =
     (case secondary_fetch E mgr rq
             (logged INFO (''Attempting fallback to '' @ fallback_source mgr) s) of
        (Inr d, s2) \<Rightarrow>
          if d \<noteq> [] then
            (Inr d, logged INFO (''Successfully fetched data from fallback source: ''
                                   @ fallback_source mgr) s2)
          else finish primary_error s2
      | (Inl e2, s2) \<Rightarrow>
          if is_Exception e2
          then finish primary_error (logged WARNING (''Fallback also failed: '' @ str_exc e2) s2)
          else (Inl e2, s2))"

definition flat :: "'w env \<Rightarrow> DataSourceManager \<Rightarrow> request \<Rightarrow> (result, 'w module_st) py" where
  "flat E mgr rq s =
     (case primary_fetch E mgr rq s of
        (Inr d, s1) \<Rightarrow>
          if d \<noteq> [] then
            (Inr d, logged INFO (''Successfully fetched data from '' @ primary_source mgr) s1)
          else if enable_fallback mgr then fallback_part E mgr rq None s1
          else (Inr [], s1)
      | (Inl e, s1) \<Rightarrow>
          if is_Exception e then
            (let s1' = logged WARNING (''Failed to fetch data from '' @ primary_source mgr
                                        @ '': '' @ str_exc e) s1
             in if enable_fallback mgr then fallback_part E mgr rq (Some e) s1'
                else (Inl e, s1'))
          else (Inl e, s1))"

definition is_fetch :: "event \<Rightarrow> bool" where
  "is_fetch ev = (is_ibkr_fetch ev \<or> is_finnhub_fetch ev)"

text \<open>
  What a computation adds to the trace: \<open>adds S m\<close> says that from every state \<open>m\<close>
  extends the trace, by a list of events for which \<open>S\<close> holds; \<open>emits P m\<close> says that
  every event it adds satisfies \<open>P\<close>.
\<close>

definition adds :: "(event list \<Rightarrow> bool) \<Rightarrow> ('a, ('w, 'z) io_scheme) py \<Rightarrow> bool" where
  "adds S m = (\<forall>s. \<exists>evs. trace (snd (m s)) = trace s @ evs \<and> S evs)"

definition emits :: "(event \<Rightarrow> bool) \<Rightarrow> ('a, ('w, 'z) io_scheme) py \<Rightarrow> bool" where
  "emits P m = adds (list_all P) m"

definition quiet :: "('a, ('w, 'z) io_scheme) py \<Rightarrow> bool" where
  "quiet m = emits (\<lambda>ev. \<not> is_fetch ev) m"

text \<open>The events of the broker client other than clock readings and news queries.\<close>

fun basic :: "event \<Rightarrow> bool" where
  "basic (Now _) = False"
| "basic (ReqHistoricalNews _ _ _ _ _) = False"
| "basic (FetchIbkr _ _ _ _ _) = False"
| "basic (FetchFinnhub _ _ _ _ _ _) = False"
| "basic _ = True"

text \<open>The ticker and the two dates a fetch was invoked with.\<close>

fun fetch_args :: "event \<Rightarrow> (string \<times> string \<times> string) option" where
  "fetch_args (FetchIbkr t a b _ _) = Some (t, a, b)"
| "fetch_args (FetchFinnhub t a b _ _ _) = Some (t, a, b)"
| "fetch_args _ = None"

definition request_args :: "request \<Rightarrow> (string \<times> string \<times> string) option" where
  "request_args rq = Some (ticker rq, start_date rq, end_date rq)"

text \<open>
  The state in which the fallback starts when it is entered: the one the primary fetch
  left, with the warning about its failure (if it raised) and the line announcing the
  fallback logged.
\<close>

definition state_before_fallback ::
  "'w env \<Rightarrow> DataSourceManager \<Rightarrow> request \<Rightarrow> 'w module_st \<Rightarrow> 'w module_st" where
  "state_before_fallback E mgr rq s =
     (case primary_fetch E mgr rq s of
        (Inr d, s1) \<Rightarrow> logged INFO (''Attempting fallback to '' @ fallback_source mgr) s1
      | (Inl e, s1) \<Rightarrow>
          logged INFO (''Attempting fallback to '' @ fallback_source mgr)
            (logged WARNING (''Failed to fetch data from '' @ primary_source mgr
                              @ '': '' @ str_exc e) s1))"

text \<open>
  Whether a run goes on to the secondary provider: fallback is enabled, and the primary
  fetch returned an empty result or raised an \<open>Exception\<close>.
\<close>

definition falls_back :: "'w env \<Rightarrow> DataSourceManager \<Rightarrow> request \<Rightarrow> 'w module_st \<Rightarrow> bool" where
  "falls_back E mgr rq s =
     (enable_fallback mgr \<and>
      (case fst (primary_fetch E mgr rq s) of Inr d \<Rightarrow> d = [] | Inl e \<Rightarrow> is_Exception e))"

text \<open>
  A scripted outside world for concrete runs: every operation of the gateway and of the
  file-backed provider answers what the script holds for it, and the clock gives the
  readings of \<open>sc_clock\<close> one after the other.
\<close>

record script =
  sc_connect :: "py_exc + unit"
  sc_disconnect :: "py_exc + unit"
  sc_contract_details :: "py_exc + contract_details list"
  sc_news_providers :: "py_exc + news_provider list"
  sc_historical_news :: "py_exc + historical_news list"
  sc_historical_data :: "py_exc + bar_data list"
  sc_fundamental_data :: "py_exc + pyval"
  sc_mkt_data :: "py_exc + unit"
  sc_ticker :: "py_exc + ticker_data option"
  sc_finnhub :: "py_exc + result"
  sc_clock :: "datetime list"

definition scripted :: "config \<Rightarrow> script env" where
  "scripted cfg =
     \<lparr>get_config = cfg,
      DATA_DIR = ''./data'',
      IB_connectAsync = (\<lambda>h p c t w. (sc_connect w, w)),
      IB_disconnect = (\<lambda>w. (sc_disconnect w, w)),
      IB_reqContractDetailsAsync = (\<lambda>c w. (sc_contract_details w, w)),
      IB_reqNewsProvidersAsync = (\<lambda>w. (sc_news_providers w, w)),
      IB_reqHistoricalNewsAsync = (\<lambda>i p a b n w. (sc_historical_news w, w)),
      IB_reqHistoricalDataAsync = (\<lambda>c e d b w u f w'. (sc_historical_data w', w')),
      IB_reqFundamentalDataAsync = (\<lambda>c r w. (sc_fundamental_data w, w)),
      IB_reqMktData = (\<lambda>c g a b w. (sc_mkt_data w, w)),
      IB_ticker = (\<lambda>c w. (sc_ticker w, w)),
      asyncio_sleep = (\<lambda>n w. (Inr (), w)),
      datetime_now = (\<lambda>w. case sc_clock w of
                               [] \<Rightarrow> (Datetime 1970 1 1 0 0 0 0, w)
                             | t # ts \<Rightarrow> (t, w\<lparr>sc_clock := ts\<rparr>)),
      get_finnhub_data_in_range = (\<lambda>t a b k d p w. (sc_finnhub w, w))\<rparr>"

definition default_script :: script where
  "default_script =
     \<lparr>sc_connect = Inr (), sc_disconnect = Inr (), sc_contract_details = Inr [],
      sc_news_providers = Inr [], sc_historical_news = Inr [], sc_historical_data = Inr [],
      sc_fundamental_data = Inr PyNone, sc_mkt_data = Inr (), sc_ticker = Inr None,
      sc_finnhub = Inr [], sc_clock = []\<rparr>"

definition empty_config :: config where
  "empty_config =
     \<lparr>cfg_data_source = None, cfg_enable_fallback = None, cfg_ibkr_host = None,
      cfg_ibkr_port = None, cfg_ibkr_client_id = None, cfg_ibkr_timeout = None\<rparr>"

definition fresh :: "'w \<Rightarrow> 'w module_st" where
  "fresh w = \<lparr>world = w, trace = [], ibkr_connection = None, data_source_manager = None\<rparr>"

definition aapl_news :: request where
  "aapl_news =
     \<lparr>ticker = ''AAPL'', start_date = ''2024-01-01'', end_date = ''2024-01-05'',
      data_type = ''news'', data_dir = None, period = None, kwargs = []\<rparr>"

definition ibkr_first :: DataSourceManager where
  "ibkr_first = \<lparr>primary_source = ''ibkr'', enable_fallback = True\<rparr>"

definition finnhub_first :: DataSourceManager where
  "finnhub_first = \<lparr>primary_source = ''finnhub'', enable_fallback = True\<rparr>"

text \<open>Scripts of the outside world for concrete runs.\<close>

definition unreachable_gateway :: script where
  "unreachable_gateway = default_script\<lparr>sc_connect := Inl (Exc ''ConnectionRefusedError'')\<rparr>"

definition one_headline :: result where
  "one_headline = [(''2024-01-02'', PyStr ''headline'')]"

definition no_fallback :: DataSourceManager where
  "no_fallback = \<lparr>primary_source = ''ibkr'', enable_fallback = False\<rparr>"

definition interrupted_files :: script where
  "interrupted_files = default_script\<lparr>sc_finnhub := Inl (BaseExc ''KeyboardInterrupt'')\<rparr>"

definition unreachable_then_interrupted :: script where
  "unreachable_then_interrupted =
     unreachable_gateway\<lparr>sc_finnhub := Inl (BaseExc ''KeyboardInterrupt'')\<rparr>"

definition unreachable_then_missing :: script where
  "unreachable_then_missing =
     unreachable_gateway\<lparr>sc_finnhub := Inl (Exc ''FileNotFoundError'')\<rparr>"

definition unreachable_then_headline :: script where
  "unreachable_then_headline = unreachable_gateway\<lparr>sc_finnhub := Inr one_headline\<rparr>"

definition options_request :: request where
  "options_request = aapl_news\<lparr>data_type := ''options''\<rparr>"



definition keys_within :: "string \<Rightarrow> string \<Rightarrow> 'v pydict \<Rightarrow> bool" where
  "keys_within start_d end_d d = (\<forall>k \<in> set (dict_keys d). start_d \<le> k \<and> k \<le> end_d)"

definition returns :: "('a \<Rightarrow> bool) \<Rightarrow> ('a, 's) py \<Rightarrow> bool" where
  "returns Q m = (\<forall>s a s'. m s = (Inr a, s') \<longrightarrow> Q a)"

text \<open>
  A gateway that knows the contract and one news provider, and has two headlines: one of
  3 January 2024 and one of 30 December 2023. The clock reads noon of 6 January 2024.
\<close>

definition aapl_details :: contract_details where
  "aapl_details =
     ContractDetails (Contract ''STK'' 265598 ''AAPL'' ''SMART'' ''USD'') (PyStr ''APPLE INC'')
       PyNone PyNone PyNone PyNone PyNone PyNone PyNone PyNone PyNone PyNone PyNone PyNone
       PyNone"

definition january_headline :: historical_news where
  "january_headline = HistoricalNews (Datetime 2024 1 3 9 30 0 0) ''BRFG'' ''BRFG$1'' ''Up''"

definition december_headline :: historical_news where
  "december_headline = HistoricalNews (Datetime 2023 12 30 16 0 0 0) ''BRFG'' ''BRFG$0'' ''Flat''"

definition news_gateway :: script where
  "news_gateway =
     default_script\<lparr>sc_contract_details := Inr [aapl_details],
       sc_news_providers := Inr [NewsProvider ''BRFG'' ''Briefing''],
       sc_historical_news := Inr [january_headline, december_headline],
       sc_clock := [Datetime 2024 1 6 12 0 0 0, Datetime 2024 1 6 12 0 0 250000]\<rparr>"

text \<open>
  Reading the news query off a trace. \<open>windows_anchored n\<close> holds of a list of events when
  every news query in it comes right after two readings of the clock, starts \<open>n\<close> days
  before the first reading and ends at the second.
\<close>

fun now_of :: "event \<Rightarrow> datetime option" where
  "now_of (Now t) = Some t"
| "now_of _ = None"

fun query_of :: "event \<Rightarrow> (datetime \<times> datetime) option" where
  "query_of (ReqHistoricalNews c p st en k) = Some (st, en)"
| "query_of _ = None"

definition anchored_query :: "int \<Rightarrow> event list \<Rightarrow> datetime \<times> datetime \<Rightarrow> bool" where
  "anchored_query n seen w =
     (case seen of
        b # a # _ \<Rightarrow>
          (case (now_of a, now_of b) of
             (Some t1, Some t2) \<Rightarrow> datetime_sub_days t1 n = Inr (fst w) \<and> snd w = t2
           | _ \<Rightarrow> False)
      | _ \<Rightarrow> False)"

text \<open>\<open>seen\<close> holds the events already passed, the latest first.\<close>

fun anchored :: "int \<Rightarrow> event list \<Rightarrow> event list \<Rightarrow> bool" where
  "anchored n seen [] = True"
| "anchored n seen (ev # evs) =
     ((case query_of ev of None \<Rightarrow> True | Some w \<Rightarrow> anchored_query n seen w)
      \<and> anchored n (ev # seen) evs)"

definition windows_anchored :: "int \<Rightarrow> event list \<Rightarrow> bool" where
  "windows_anchored n evs = anchored n [] evs"

definition no_query :: "event \<Rightarrow> bool" where
  "no_query ev = (query_of ev = None)"

definition news_query_shape :: "int \<Rightarrow> event list \<Rightarrow> bool" where
  "news_query_shape n evs =
     (list_all no_query evs
      \<or> (\<exists>pre t1 t2 c p st k post.
            evs = pre @ [Now t1, Now t2, ReqHistoricalNews c p st t2 k] @ post
            \<and> list_all no_query pre \<and> list_all no_query post
            \<and> datetime_sub_days t1 n = Inr st))"

text \<open>
  \<open>grouped_from a b d\<close>: the mapping \<open>d\<close> is what grouping some list of articles by date,
  keeping the dates from \<open>a\<close> to \<open>b\<close>, gives.
\<close>

definition grouped_from :: "string \<Rightarrow> string \<Rightarrow> result \<Rightarrow> bool" where
  "grouped_from a b d =
     (\<exists>articles grouped. group_articles a b articles [] = Inr grouped
        \<and> d = map (\<lambda>(k, l). (k, PyList l)) grouped)"

section \<open>Properties\<close>

subsection \<open>The fallback policy, case by case\<close>

lemma get_data_in_range_flat: "get_data_in_range E mgr rq s = flat E mgr rq s"
proof (cases "primary_source mgr = ''ibkr''")
  case True
  then show ?thesis
    by (simp add: get_data_in_range_def flat_def fallback_part_def finish_def primary_fetch_def
        secondary_fetch_def fallback_source_def logged_def logger_def bnd_def
        try_except_Exception_def ret_def raise_def not_data_def Let_def
        split: prod.splits sum.splits primary_outcome.splits option.splits if_splits)
next
  case False
  then show ?thesis
    by (simp add: get_data_in_range_def flat_def fallback_part_def finish_def primary_fetch_def
        secondary_fetch_def fallback_source_def logged_def logger_def bnd_def
        try_except_Exception_def ret_def raise_def not_data_def Let_def
        split: prod.splits sum.splits primary_outcome.splits option.splits if_splits)
qed

subsection \<open>What the broker functions add to the trace\<close>

lemma addsI: "(\<And>s. \<exists>evs. trace (snd (m s)) = trace s @ evs \<and> S evs) \<Longrightarrow> adds S m"
  by (simp add: adds_def)

lemma addsD: "adds S m \<Longrightarrow> \<exists>evs. trace (snd (m s)) = trace s @ evs \<and> S evs"
  unfolding adds_def by (rule spec)

lemma adds_same: "S [] \<Longrightarrow> (\<And>s. trace (snd (m s)) = trace s) \<Longrightarrow> adds S m"
  by (rule addsI) simp

lemma adds_bnd:
  assumes "adds S1 m" and "\<And>a. adds S2 (f a)"
    and "\<And>xs. S1 xs \<Longrightarrow> S xs" and "\<And>xs ys. S1 xs \<Longrightarrow> S2 ys \<Longrightarrow> S (xs @ ys)"
  shows "adds S (bnd m f)"
proof (rule addsI)
  fix s
  obtain r s1 where ms: "m s = (r, s1)" by (cases "m s")
  from addsD[OF assms(1), of s] ms obtain evs1 where
    e1: "trace s1 = trace s @ evs1" "S1 evs1" by (elim exE conjE) simp
  show "\<exists>evs. trace (snd (bnd m f s)) = trace s @ evs \<and> S evs"
  proof (cases r)
    case (Inl e)
    with ms e1 have "trace (snd (bnd m f s)) = trace s @ evs1" by (simp add: bnd_def)
    with assms(3)[OF e1(2)] show ?thesis by (intro exI conjI)
  next
    case (Inr a)
    from addsD[OF assms(2), of a s1] obtain evs2 where
      e2: "trace (snd (f a s1)) = trace s1 @ evs2" "S2 evs2" by (elim exE conjE)
    from ms Inr e1 e2 have "trace (snd (bnd m f s)) = trace s @ (evs1 @ evs2)"
      by (simp add: bnd_def)
    with assms(4)[OF e1(2) e2(2)] show ?thesis by (intro exI conjI)
  qed
qed

lemma adds_try:
  assumes "adds S1 m" and "\<And>e. adds S2 (h e)"
    and "\<And>xs. S1 xs \<Longrightarrow> S xs" and "\<And>xs ys. S1 xs \<Longrightarrow> S2 ys \<Longrightarrow> S (xs @ ys)"
  shows "adds S (try_except_Exception m h)"
proof (rule addsI)
  fix s
  obtain r s1 where ms: "m s = (r, s1)" by (cases "m s")
  from addsD[OF assms(1), of s] ms obtain evs1 where
    e1: "trace s1 = trace s @ evs1" "S1 evs1" by (elim exE conjE) simp
  have plain_exit: "trace (snd (try_except_Exception m h s)) = trace s @ evs1
    \<Longrightarrow> \<exists>evs. trace (snd (try_except_Exception m h s)) = trace s @ evs \<and> S evs"
    using assms(3)[OF e1(2)] by (intro exI conjI)
  show "\<exists>evs. trace (snd (try_except_Exception m h s)) = trace s @ evs \<and> S evs"
  proof (cases r)
    case (Inr a)
    with ms e1 have "trace (snd (try_except_Exception m h s)) = trace s @ evs1"
      by (simp add: try_except_Exception_def)
    then show ?thesis by (rule plain_exit)
  next
    case (Inl e)
    show ?thesis
    proof (cases "is_Exception e")
      case False
      with Inl ms e1 have "trace (snd (try_except_Exception m h s)) = trace s @ evs1"
        by (simp add: try_except_Exception_def)
      then show ?thesis by (rule plain_exit)
    next
      case True
      from addsD[OF assms(2), of e s1] obtain evs2 where
        e2: "trace (snd (h e s1)) = trace s1 @ evs2" "S2 evs2" by (elim exE conjE)
      from ms Inl True e1 e2
      have "trace (snd (try_except_Exception m h s)) = trace s @ (evs1 @ evs2)"
        by (simp add: try_except_Exception_def)
      with assms(4)[OF e1(2) e2(2)] show ?thesis by (intro exI conjI)
    qed
  qed
qed

lemma adds_call_method:
  fixes m :: "('a, 'w conn_st) py"
  assumes "adds S m"
  shows "adds S (call_method c m)"
proof (rule addsI)
  fix s :: "'w module_st"
  from addsD[OF assms, of "\<lparr>world = world s, trace = trace s, self = c\<rparr>"]
  obtain evs where
    "trace (snd (m \<lparr>world = world s, trace = trace s, self = c\<rparr>)) = trace s @ evs" "S evs"
    by (elim exE conjE) simp
  then show "\<exists>evs. trace (snd (call_method c m s)) = trace s @ evs \<and> S evs"
    by (auto simp add: call_method_def split: prod.splits)
qed

lemma emits_same: "(\<And>s. trace (snd (m s)) = trace s) \<Longrightarrow> emits P m"
  unfolding emits_def by (rule adds_same) simp_all

lemma emits_ret: "emits P (ret a)"
  by (rule emits_same) (simp add: ret_def)

lemma emits_raise: "emits P (raise e)"
  by (rule emits_same) (simp add: raise_def)

lemma emits_lift: "emits P (lift r)"
  by (rule emits_same) (simp add: lift_def)

lemma emits_get_self: "emits P get_self"
  by (rule emits_same) (simp add: get_self_def)

lemma emits_set_connected: "emits P (set_connected b)"
  by (rule emits_same) (simp add: set_connected_def)

lemma emits_read_ibkr_connection: "emits P read_ibkr_connection"
  by (rule emits_same) (simp add: read_ibkr_connection_def)

lemma emits_write_ibkr_connection: "emits P (write_ibkr_connection v)"
  by (rule emits_same) (simp add: write_ibkr_connection_def)

lemma emits_logger: "P (Log l m) \<Longrightarrow> emits P (logger l m)"
  unfolding emits_def by (rule addsI) (simp add: logger_def)

lemma emits_now: "(\<And>t. P (Now t)) \<Longrightarrow> emits P (now E)"
  unfolding emits_def by (rule addsI) (simp add: now_def split: prod.splits)

lemma emits_ext: "P ev \<Longrightarrow> emits P (ext ev op)"
  unfolding emits_def by (rule addsI) (simp add: ext_def split: prod.splits)

lemma emits_bnd: "emits P m \<Longrightarrow> (\<And>a. emits P (f a)) \<Longrightarrow> emits P (bnd m f)"
  unfolding emits_def
  by (rule adds_bnd[where ?S1.0 = "list_all P" and ?S2.0 = "list_all P"]) simp_all

lemma emits_try:
  "emits P m \<Longrightarrow> (\<And>e. emits P (h e)) \<Longrightarrow> emits P (try_except_Exception m h)"
  unfolding emits_def
  by (rule adds_try[where ?S1.0 = "list_all P" and ?S2.0 = "list_all P"]) simp_all

lemma emits_call_method:
  fixes m :: "('a, 'w conn_st) py"
  shows "emits P m \<Longrightarrow> emits P (call_method c m)"
  unfolding emits_def by (rule adds_call_method)

lemma emits_if: "emits P a \<Longrightarrow> emits P b \<Longrightarrow> emits P (if c then a else b)"
  by simp

lemmas emits_rules = emits_bnd emits_try emits_if emits_call_method emits_ret emits_raise
  emits_lift emits_get_self emits_set_connected emits_read_ibkr_connection
  emits_write_ibkr_connection

lemma emits_connect:
  assumes "\<And>ev. basic ev \<Longrightarrow> P ev"
  shows "emits P (connect E)"
  unfolding connect_def
  by (intro emits_rules emits_logger emits_ext assms) simp_all

lemma emits_connect_unless_connected:
  assumes "\<And>ev. basic ev \<Longrightarrow> P ev"
  shows "emits P (connect_unless_connected E)"
  unfolding connect_unless_connected_def
  by (intro emits_rules emits_connect assms)

lemma emits_disconnect:
  assumes "\<And>ev. basic ev \<Longrightarrow> P ev"
  shows "emits P (disconnect E)"
  unfolding disconnect_def
  by (intro emits_rules emits_logger emits_ext assms) simp_all

lemma emits_get_historical_data:
  assumes "\<And>ev. basic ev \<Longrightarrow> P ev"
  shows "emits P (get_historical_data E t d b w)"
  unfolding get_historical_data_def Let_def
  by (intro emits_rules emits_connect_unless_connected emits_ext assms) simp_all

lemma emits_list_case:
  "emits P a \<Longrightarrow> (\<And>x xs. emits P (f x xs)) \<Longrightarrow> emits P (case l of [] \<Rightarrow> a | x # xs \<Rightarrow> f x xs)"
  by (cases l) simp_all

lemma emits_option_case:
  "emits P a \<Longrightarrow> (\<And>x. emits P (f x)) \<Longrightarrow> emits P (case v of None \<Rightarrow> a | Some x \<Rightarrow> f x)"
  by (cases v) simp_all

lemma emits_get_news_articles:
  assumes "\<And>ev. basic ev \<Longrightarrow> P ev" and "\<And>t. P (Now t)"
    and "\<And>c p a b k. P (ReqHistoricalNews c p a b k)"
  shows "emits P (get_news_articles E t n)"
  unfolding get_news_articles_def Let_def
  by (intro emits_rules emits_list_case emits_connect_unless_connected emits_logger emits_ext
      emits_now assms) simp_all

lemma emits_get_company_info:
  assumes "\<And>ev. basic ev \<Longrightarrow> P ev"
  shows "emits P (get_company_info E t)"
  unfolding get_company_info_def Let_def
  by (intro emits_rules emits_list_case emits_connect_unless_connected emits_ext assms) simp_all

lemma emits_get_fundamentals:
  assumes "\<And>ev. basic ev \<Longrightarrow> P ev"
  shows "emits P (get_fundamentals E t)"
  unfolding get_fundamentals_def Let_def
  by (intro emits_rules emits_connect_unless_connected emits_logger emits_ext assms) simp_all

lemma emits_get_real_time_data:
  assumes "\<And>ev. basic ev \<Longrightarrow> P ev"
  shows "emits P (get_real_time_data E t)"
  unfolding get_real_time_data_def Let_def
  by (intro emits_rules emits_option_case emits_connect_unless_connected emits_ext assms)
     simp_all

lemma emits_get_ibkr_connection: "emits P (get_ibkr_connection E)"
  unfolding get_ibkr_connection_def Let_def
  by (intro emits_rules emits_option_case)

lemma emits_get_ibkr_data_in_range:
  assumes "\<And>ev. basic ev \<Longrightarrow> P ev" and "\<And>t. P (Now t)"
    and "\<And>c p a b k. P (ReqHistoricalNews c p a b k)"
  shows "emits P (get_ibkr_data_in_range E t a b k kw)"
  unfolding get_ibkr_data_in_range_def Let_def
  by (intro emits_rules emits_option_case emits_get_ibkr_connection emits_get_news_articles
      emits_get_historical_data emits_get_fundamentals emits_get_company_info
      emits_get_real_time_data emits_logger assms) simp_all

lemma basic_not_fetch: "basic ev \<Longrightarrow> \<not> is_fetch ev"
  by (cases ev) (simp_all add: is_fetch_def)

lemma quiet_get_ibkr_data_in_range: "quiet (get_ibkr_data_in_range E t a b k kw)"
  unfolding quiet_def
  by (rule emits_get_ibkr_data_in_range) (erule basic_not_fetch, simp_all add: is_fetch_def)

lemma list_all_not_filter: "list_all (\<lambda>ev. \<not> P ev) evs \<Longrightarrow> filter P evs = []"
  by (induction evs) simp_all

lemma quietD:
  assumes "quiet m"
  shows "\<exists>evs. trace (snd (m s)) = trace s @ evs \<and> filter is_fetch evs = []"
proof -
  from assms have "adds (list_all (\<lambda>ev. \<not> is_fetch ev)) m"
    by (simp add: quiet_def emits_def)
  from addsD[OF this, of s] obtain evs where
    "trace (snd (m s)) = trace s @ evs" "list_all (\<lambda>ev. \<not> is_fetch ev) evs"
    by (elim exE conjE)
  then show ?thesis by (intro exI conjI list_all_not_filter)
qed

subsection \<open>The fetches in the trace of a request\<close>

lemma get_finnhub_data_trace:
  "trace (snd (get_finnhub_data E rq s)) = trace s @
     [FetchFinnhub (ticker rq) (start_date rq) (end_date rq) (data_type rq)
        (case data_dir rq of None \<Rightarrow> DATA_DIR E | Some d \<Rightarrow> d) (period rq)]"
  by (simp add: get_finnhub_data_def ext_def Let_def split: prod.splits)

lemma get_ibkr_data_trace:
  "\<exists>evs. trace (snd (get_ibkr_data E rq s)) = trace s @
     FetchIbkr (ticker rq) (start_date rq) (end_date rq) (data_type rq) (kwargs rq) # evs
     \<and> filter is_fetch evs = []"
proof -
  let ?ev = "FetchIbkr (ticker rq) (start_date rq) (end_date rq) (data_type rq) (kwargs rq)"
  let ?s1 = "s\<lparr>trace := trace s @ [?ev]\<rparr>"
  let ?m = "get_ibkr_data_in_range E (ticker rq) (start_date rq) (end_date rq)
           (data_type rq) (kwargs rq)"
  from quiet_get_ibkr_data_in_range
  have "\<exists>evs. trace (snd (?m ?s1)) = trace ?s1 @ evs \<and> filter is_fetch evs = []"
    by (rule quietD)
  then obtain evs where evs: "trace (snd (?m ?s1)) = trace ?s1 @ evs" "filter is_fetch evs = []"
    by blast
  have eq: "get_ibkr_data E rq s = ?m ?s1"
    by (simp add: get_ibkr_data_def bnd_def record_event_def)
  have "trace (snd (get_ibkr_data E rq s)) = trace s @ ?ev # evs"
    using evs(1) by (simp add: eq)
  with evs(2) show ?thesis by blast
qed

lemma filter_is_fetch_none:
  "filter is_fetch evs = [] \<Longrightarrow> filter is_ibkr_fetch evs = [] \<and> filter is_finnhub_fetch evs = []"
  by (induction evs) (auto simp: is_fetch_def split: if_splits)

lemma primary_fetch_trace:
  "\<exists>evs. trace (snd (primary_fetch E mgr rq s)) = trace s @ evs
     \<and> map fetch_args (primary_fetches mgr evs) = [request_args rq]
     \<and> secondary_fetches mgr evs = []"
proof (cases "primary_source mgr = ''ibkr''")
  case True
  from get_ibkr_data_trace[of E rq s] obtain evs where
    "trace (snd (get_ibkr_data E rq s)) = trace s @
       FetchIbkr (ticker rq) (start_date rq) (end_date rq) (data_type rq) (kwargs rq) # evs"
    "filter is_fetch evs = []" by blast
  with True filter_is_fetch_none[of evs] show ?thesis
    by (simp add: primary_fetch_def primary_fetches_def secondary_fetches_def request_args_def)
next
  case False
  with get_finnhub_data_trace[of E rq s] show ?thesis
    by (simp add: primary_fetch_def primary_fetches_def secondary_fetches_def request_args_def)
qed

lemma secondary_fetch_trace:
  "\<exists>evs. trace (snd (secondary_fetch E mgr rq s)) = trace s @ evs
     \<and> map fetch_args (secondary_fetches mgr evs) = [request_args rq]
     \<and> primary_fetches mgr evs = []"
proof (cases "primary_source mgr = ''ibkr''")
  case False
  from get_ibkr_data_trace[of E rq s] obtain evs where
    "trace (snd (get_ibkr_data E rq s)) = trace s @
       FetchIbkr (ticker rq) (start_date rq) (end_date rq) (data_type rq) (kwargs rq) # evs"
    "filter is_fetch evs = []" by blast
  with False filter_is_fetch_none[of evs] show ?thesis
    by (simp add: secondary_fetch_def primary_fetches_def secondary_fetches_def request_args_def)
next
  case True
  with get_finnhub_data_trace[of E rq s] show ?thesis
    by (simp add: secondary_fetch_def primary_fetches_def secondary_fetches_def request_args_def)
qed

lemma fetches_append [simp]:
  "primary_fetches mgr (xs @ ys) = primary_fetches mgr xs @ primary_fetches mgr ys"
  "secondary_fetches mgr (xs @ ys) = secondary_fetches mgr xs @ secondary_fetches mgr ys"
  by (simp_all add: primary_fetches_def secondary_fetches_def)

lemma fetches_Log [simp]:
  "primary_fetches mgr (Log l m # xs) = primary_fetches mgr xs"
  "secondary_fetches mgr (Log l m # xs) = secondary_fetches mgr xs"
  "primary_fetches mgr [] = []"
  "secondary_fetches mgr [] = []"
  by (simp_all add: primary_fetches_def secondary_fetches_def)

lemma snd_finish [simp]: "snd (finish pe s) = s"
  by (simp add: finish_def raise_def ret_def split: option.splits)

lemma trace_logged [simp]: "trace (logged l m s) = trace s @ [Log l m]"
  by (simp add: logged_def)

lemma fallback_part_tail:
  assumes "secondary_fetch E mgr rq
             (logged INFO (''Attempting fallback to '' @ fallback_source mgr) t) = (r2, s2)"
  shows "\<exists>logs. trace (snd (fallback_part E mgr rq pe t)) = trace s2 @ logs
           \<and> primary_fetches mgr logs = [] \<and> secondary_fetches mgr logs = []"
proof (cases r2)
  case (Inr d)
  show ?thesis
  proof (cases "d = []")
    case True
    with Inr assms have "trace (snd (fallback_part E mgr rq pe t)) = trace s2 @ []"
      by (simp add: fallback_part_def)
    then show ?thesis by (intro exI[of _ "[]"]) simp
  next
    case False
    let ?l = "[Log INFO (''Successfully fetched data from fallback source: ''
                                   @ fallback_source mgr)]"
    from False Inr assms have "trace (snd (fallback_part E mgr rq pe t)) = trace s2 @ ?l"
      by (simp add: fallback_part_def)
    then show ?thesis by (intro exI[of _ ?l]) simp
  qed
next
  case (Inl e2)
  show ?thesis
  proof (cases "is_Exception e2")
    case False
    with Inl assms have "trace (snd (fallback_part E mgr rq pe t)) = trace s2 @ []"
      by (simp add: fallback_part_def)
    then show ?thesis by (intro exI[of _ "[]"]) simp
  next
    case True
    let ?l = "[Log WARNING (''Fallback also failed: '' @ str_exc e2)]"
    from True Inl assms have "trace (snd (fallback_part E mgr rq pe t)) = trace s2 @ ?l"
      by (simp add: fallback_part_def)
    then show ?thesis by (intro exI[of _ ?l]) simp
  qed
qed

lemma fallback_part_trace:
  "\<exists>evs. trace (snd (fallback_part E mgr rq pe t)) = trace t @ evs
     \<and> primary_fetches mgr evs = []
     \<and> map fetch_args (secondary_fetches mgr evs) = [request_args rq]"
proof -
  let ?i = "Log INFO (''Attempting fallback to '' @ fallback_source mgr)"
  let ?t1 = "logged INFO (''Attempting fallback to '' @ fallback_source mgr) t"
  obtain r2 s2 where S: "secondary_fetch E mgr rq ?t1 = (r2, s2)"
    by (cases "secondary_fetch E mgr rq ?t1")
  have "\<exists>evs. trace s2 = trace ?t1 @ evs
     \<and> map fetch_args (secondary_fetches mgr evs) = [request_args rq]
     \<and> primary_fetches mgr evs = []"
    using secondary_fetch_trace[of E mgr rq ?t1] unfolding S snd_conv .
  then obtain evs where
    evs: "trace s2 = trace ?t1 @ evs"
      "map fetch_args (secondary_fetches mgr evs) = [request_args rq]"
      "primary_fetches mgr evs = []" by (elim exE conjE) (rule that)
  from fallback_part_tail[OF S, of pe] obtain logs where
    logs: "trace (snd (fallback_part E mgr rq pe t)) = trace s2 @ logs"
      "primary_fetches mgr logs = []" "secondary_fetches mgr logs = []"
    by (elim exE conjE) (rule that)
  have a: "trace (snd (fallback_part E mgr rq pe t)) = trace t @ (?i # evs @ logs)"
    unfolding logs(1) evs(1) by simp
  have b: "primary_fetches mgr (?i # evs @ logs) = []"
    using evs(3) logs(2) by simp
  have c: "map fetch_args (secondary_fetches mgr (?i # evs @ logs)) = [request_args rq]"
    using evs(2) logs(3) by simp
  show ?thesis
    by (rule exI[of _ "?i # evs @ logs"]) (intro conjI a b c)
qed

lemma flat_trace:
  "\<exists>evs. trace (snd (flat E mgr rq s)) = trace s @ evs
     \<and> map fetch_args (primary_fetches mgr evs) = [request_args rq]
     \<and> map fetch_args (secondary_fetches mgr evs)
         = (if falls_back E mgr rq s then [request_args rq] else [])"
proof -
  obtain r1 s1 where P: "primary_fetch E mgr rq s = (r1, s1)"
    by (cases "primary_fetch E mgr rq s")
  have "\<exists>evs. trace s1 = trace s @ evs
     \<and> map fetch_args (primary_fetches mgr evs) = [request_args rq]
     \<and> secondary_fetches mgr evs = []"
    using primary_fetch_trace[of E mgr rq s] unfolding P snd_conv .
  then obtain evs where
    evs: "trace s1 = trace s @ evs"
      "map fetch_args (primary_fetches mgr evs) = [request_args rq]"
      "secondary_fetches mgr evs = []" by (elim exE conjE) (rule that)
  let ?w = "Log WARNING (''Failed to fetch data from '' @ primary_source mgr
                                        @ '': '' @ str_exc (projl r1))"
  show ?thesis
  proof (cases "falls_back E mgr rq s")
    case False
    have "\<exists>logs. trace (snd (flat E mgr rq s)) = trace s1 @ logs
            \<and> primary_fetches mgr logs = [] \<and> secondary_fetches mgr logs = []"
    proof (cases r1)
      case (Inr d)
      show ?thesis
      proof (cases "d = []")
        case True
        with False P Inr have "trace (snd (flat E mgr rq s)) = trace s1 @ []"
          by (simp add: flat_def falls_back_def)
        then show ?thesis by (intro exI[of _ "[]"]) simp
      next
        case nonempty: False
        let ?l = "[Log INFO (''Successfully fetched data from '' @ primary_source mgr)]"
        from nonempty P Inr have "trace (snd (flat E mgr rq s)) = trace s1 @ ?l"
          by (simp add: flat_def)
        then show ?thesis by (intro exI[of _ ?l]) simp
      qed
    next
      case (Inl e)
      show ?thesis
      proof (cases "is_Exception e")
        case True
        with False P Inl have "trace (snd (flat E mgr rq s)) = trace s1 @ [?w]"
          by (simp add: flat_def falls_back_def Let_def)
        then show ?thesis by (intro exI[of _ "[?w]"]) simp
      next
        case notexc: False
        with P Inl have "trace (snd (flat E mgr rq s)) = trace s1 @ []"
          by (simp add: flat_def)
        then show ?thesis by (intro exI[of _ "[]"]) simp
      qed
    qed
    then obtain logs where logs: "trace (snd (flat E mgr rq s)) = trace s1 @ logs"
        "primary_fetches mgr logs = []" "secondary_fetches mgr logs = []"
      by (elim exE conjE) (rule that)
    have a: "trace (snd (flat E mgr rq s)) = trace s @ (evs @ logs)"
      unfolding logs(1) evs(1) by simp
    have b: "map fetch_args (primary_fetches mgr (evs @ logs)) = [request_args rq]"
      using evs(2) logs(2) by simp
    have c: "map fetch_args (secondary_fetches mgr (evs @ logs))
         = (if falls_back E mgr rq s then [request_args rq] else [])"
      using evs(3) logs(3) False by simp
    show ?thesis by (rule exI[of _ "evs @ logs"]) (intro conjI a b c)
  next
    case True
    have "\<exists>pre pe. flat E mgr rq s = fallback_part E mgr rq pe (s1\<lparr>trace := trace s1 @ pre\<rparr>)
            \<and> primary_fetches mgr pre = [] \<and> secondary_fetches mgr pre = []"
    proof (cases r1)
      case (Inr d)
      with True P have "flat E mgr rq s = fallback_part E mgr rq None (s1\<lparr>trace := trace s1 @ []\<rparr>)"
        by (simp add: flat_def falls_back_def)
      then show ?thesis by (intro exI[of _ "[]"] exI[of _ None]) simp
    next
      case (Inl e)
      with True P have
        "flat E mgr rq s = fallback_part E mgr rq (Some e) (s1\<lparr>trace := trace s1 @ [?w]\<rparr>)"
        by (simp add: flat_def falls_back_def Let_def logged_def)
      then show ?thesis by (intro exI[of _ "[?w]"] exI[of _ "Some e"]) simp
    qed
    then obtain pre pe where
      pre: "flat E mgr rq s = fallback_part E mgr rq pe (s1\<lparr>trace := trace s1 @ pre\<rparr>)"
        "primary_fetches mgr pre = []" "secondary_fetches mgr pre = []"
      by (elim exE conjE) (rule that)
    from fallback_part_trace[of E mgr rq pe "s1\<lparr>trace := trace s1 @ pre\<rparr>"]
    obtain evs2 where evs2:
      "trace (snd (fallback_part E mgr rq pe (s1\<lparr>trace := trace s1 @ pre\<rparr>)))
         = trace (s1\<lparr>trace := trace s1 @ pre\<rparr>) @ evs2"
      "primary_fetches mgr evs2 = []"
      "map fetch_args (secondary_fetches mgr evs2) = [request_args rq]"
      by (elim exE conjE) (rule that)
    have a: "trace (snd (flat E mgr rq s)) = trace s @ (evs @ pre @ evs2)"
      unfolding pre(1) evs2(1) by (simp add: evs(1))
    have b: "map fetch_args (primary_fetches mgr (evs @ pre @ evs2)) = [request_args rq]"
      using evs(2) pre(2) evs2(2) by simp
    have c: "map fetch_args (secondary_fetches mgr (evs @ pre @ evs2))
         = (if falls_back E mgr rq s then [request_args rq] else [])"
      using evs(3) pre(3) evs2(3) True by simp
    show ?thesis by (rule exI[of _ "evs @ pre @ evs2"]) (intro conjI a b c)
  qed
qed

lemma added_append: "trace s' = trace s @ evs \<Longrightarrow> added s s' = evs"
  by (simp add: added_def)

lemma added_fetches:
  "map fetch_args (primary_fetches mgr (added s (snd (get_data_in_range E mgr rq s))))
     = [request_args rq]
   \<and> map fetch_args (secondary_fetches mgr (added s (snd (get_data_in_range E mgr rq s))))
     = (if falls_back E mgr rq s then [request_args rq] else [])"
proof -
  from flat_trace[of E mgr rq s] obtain evs where
    evs: "trace (snd (flat E mgr rq s)) = trace s @ evs"
      "map fetch_args (primary_fetches mgr evs) = [request_args rq]"
      "map fetch_args (secondary_fetches mgr evs)
         = (if falls_back E mgr rq s then [request_args rq] else [])"
    by (elim exE conjE) (rule that)
  have "added s (snd (get_data_in_range E mgr rq s)) = evs"
    unfolding get_data_in_range_flat by (rule added_append) (rule evs(1))
  with evs(2,3) show ?thesis by simp
qed

text \<open>
  Claim C6. In one execution of \<open>get_data_in_range\<close> the primary provider's fetch is
  invoked exactly once and the secondary provider's fetch at most once: among the events
  the run adds to the trace there is one fetch of the primary and at most one of the
  secondary, whatever the providers do.
\<close>

theorem fetch_once_C6:
  "length (primary_fetches mgr (added s (snd (get_data_in_range E mgr rq s)))) = 1
   \<and> length (secondary_fetches mgr (added s (snd (get_data_in_range E mgr rq s)))) \<le> 1"
proof -
  let ?evs = "added s (snd (get_data_in_range E mgr rq s))"
  have a: "map fetch_args (primary_fetches mgr ?evs) = [request_args rq]"
    using added_fetches[of mgr s E rq] by (rule conjunct1)
  have b: "map fetch_args (secondary_fetches mgr ?evs)
     = (if falls_back E mgr rq s then [request_args rq] else [])"
    using added_fetches[of mgr s E rq] by (rule conjunct2)
  have "length (map fetch_args (primary_fetches mgr ?evs)) = 1"
    unfolding a by simp
  moreover have "length (map fetch_args (secondary_fetches mgr ?evs)) \<le> 1"
    unfolding b by simp
  ultimately show ?thesis by simp
qed

subsection \<open>The claims about the fallback policy\<close>

lemma falls_back_False_none:
  assumes "\<not> falls_back E mgr rq s"
  shows "secondary_fetches mgr (added s (snd (get_data_in_range E mgr rq s))) = []"
proof -
  have "map fetch_args (secondary_fetches mgr (added s (snd (get_data_in_range E mgr rq s))))
     = (if falls_back E mgr rq s then [request_args rq] else [])"
    using added_fetches[of mgr s E rq] by (rule conjunct2)
  with assms show ?thesis by simp
qed

lemma falls_back_True_once:
  assumes "falls_back E mgr rq s"
  shows "map fetch_args (secondary_fetches mgr (added s (snd (get_data_in_range E mgr rq s))))
     = [Some (ticker rq, start_date rq, end_date rq)]"
proof -
  have "map fetch_args (secondary_fetches mgr (added s (snd (get_data_in_range E mgr rq s))))
     = (if falls_back E mgr rq s then [request_args rq] else [])"
    using added_fetches[of mgr s E rq] by (rule conjunct2)
  with assms show ?thesis by (simp add: request_args_def)
qed

text \<open>
  Claim C1. When the primary provider's fetch returns a non-empty result,
  \<open>get_data_in_range\<close> returns that very result, the run adds no fetch of the secondary
  provider to the trace, and the state it leaves is the one the primary fetch left with one
  line logged; \<open>enable_fallback\<close> plays no part.
\<close>

theorem primary_success_C1:
  assumes "fst (primary_fetch E mgr rq s) = Inr d" and "d \<noteq> []"
  shows "fst (get_data_in_range E mgr rq s) = Inr d
    \<and> secondary_fetches mgr (added s (snd (get_data_in_range E mgr rq s))) = []
    \<and> snd (get_data_in_range E mgr rq s)
        = logged INFO (''Successfully fetched data from '' @ primary_source mgr)
            (snd (primary_fetch E mgr rq s))"
proof -
  obtain s1 where P: "primary_fetch E mgr rq s = (Inr d, s1)"
    using assms(1) by (cases "primary_fetch E mgr rq s") simp
  have G: "get_data_in_range E mgr rq s
      = (Inr d, logged INFO (''Successfully fetched data from '' @ primary_source mgr) s1)"
    unfolding get_data_in_range_flat flat_def by (simp add: P assms(2))
  have "\<not> falls_back E mgr rq s"
    by (simp add: falls_back_def P assms(2))
  then have "secondary_fetches mgr (added s (snd (get_data_in_range E mgr rq s))) = []"
    by (rule falls_back_False_none)
  then show ?thesis by (simp add: G P)
qed

theorem primary_success_C1_witness:
  "one_headline \<noteq> []
   \<and> fst (primary_fetch (scripted empty_config) finnhub_first aapl_news
            (fresh (default_script\<lparr>sc_finnhub := Inr one_headline\<rparr>))) = Inr one_headline
   \<and> fst (get_data_in_range (scripted empty_config) finnhub_first aapl_news
            (fresh (default_script\<lparr>sc_finnhub := Inr one_headline\<rparr>))) = Inr one_headline
   \<and> secondary_fetches finnhub_first
        (added (fresh (default_script\<lparr>sc_finnhub := Inr one_headline\<rparr>))
           (snd (get_data_in_range (scripted empty_config) finnhub_first aapl_news
                  (fresh (default_script\<lparr>sc_finnhub := Inr one_headline\<rparr>))))) = []"
proof -
  have h1: "fst (primary_fetch (scripted empty_config) finnhub_first aapl_news
            (fresh (default_script\<lparr>sc_finnhub := Inr one_headline\<rparr>))) = Inr one_headline"
    by code_simp
  have h2: "one_headline \<noteq> []" by code_simp
  note c = primary_success_C1[OF h1 h2]
  show ?thesis
    by (intro conjI h2 h1 conjunct1[OF c] conjunct1[OF conjunct2[OF c]])
qed

text \<open>
  Claim C5. With fallback disabled, when the primary provider's fetch raises,
  \<open>get_data_in_range\<close> raises that same exception and the run adds no fetch of the
  secondary provider to the trace.
\<close>

theorem no_fallback_reraises_C5:
  assumes "fst (primary_fetch E mgr rq s) = Inl e" and "\<not> enable_fallback mgr"
  shows "fst (get_data_in_range E mgr rq s) = Inl e
    \<and> secondary_fetches mgr (added s (snd (get_data_in_range E mgr rq s))) = []"
proof -
  obtain s1 where P: "primary_fetch E mgr rq s = (Inl e, s1)"
    using assms(1) by (cases "primary_fetch E mgr rq s") simp
  have G: "fst (get_data_in_range E mgr rq s) = Inl e"
    unfolding get_data_in_range_flat flat_def by (simp add: P assms(2) Let_def)
  have "\<not> falls_back E mgr rq s"
    by (simp add: falls_back_def assms(2))
  then have "secondary_fetches mgr (added s (snd (get_data_in_range E mgr rq s))) = []"
    by (rule falls_back_False_none)
  with G show ?thesis by simp
qed

theorem no_fallback_reraises_C5_witness:
  "\<not> enable_fallback no_fallback
   \<and> fst (primary_fetch (scripted empty_config) no_fallback aapl_news
            (fresh unreachable_gateway)) = Inl (Exc ''ConnectionRefusedError'')
   \<and> fst (get_data_in_range (scripted empty_config) no_fallback aapl_news
            (fresh unreachable_gateway)) = Inl (Exc ''ConnectionRefusedError'')
   \<and> secondary_fetches no_fallback
        (added (fresh unreachable_gateway)
           (snd (get_data_in_range (scripted empty_config) no_fallback aapl_news
                  (fresh unreachable_gateway)))) = []"
proof -
  have h1: "fst (primary_fetch (scripted empty_config) no_fallback aapl_news
            (fresh unreachable_gateway)) = Inl (Exc ''ConnectionRefusedError'')"
    by code_simp
  have h2: "\<not> enable_fallback no_fallback" by code_simp
  note c = no_fallback_reraises_C5[OF h1 h2]
  show ?thesis
    by (intro conjI h2 h1 conjunct1[OF c] conjunct2[OF c])
qed

lemma state_before_fallback_Inl:
  "primary_fetch E mgr rq s = (Inl e, s1) \<Longrightarrow>
   state_before_fallback E mgr rq s
     = logged INFO (''Attempting fallback to '' @ fallback_source mgr)
        (logged WARNING (''Failed to fetch data from '' @ primary_source mgr
                              @ '': '' @ str_exc e) s1)"
  by (simp add: state_before_fallback_def)

lemma state_before_fallback_Inr:
  "primary_fetch E mgr rq s = (Inr d, s1) \<Longrightarrow>
   state_before_fallback E mgr rq s
     = logged INFO (''Attempting fallback to '' @ fallback_source mgr) s1"
  by (simp add: state_before_fallback_def)

lemma flat_caught:
  assumes "primary_fetch E mgr rq s = (Inl e, s1)" and "is_Exception e" and "enable_fallback mgr"
    and "secondary_fetch E mgr rq (state_before_fallback E mgr rq s) = (r2, s2)"
  shows "get_data_in_range E mgr rq s =
     (case r2 of
        Inr d \<Rightarrow> if d \<noteq> [] then
                   (Inr d, logged INFO (''Successfully fetched data from fallback source: ''
                                   @ fallback_source mgr) s2)
                 else (Inl e, s2)
      | Inl e2 \<Rightarrow> if is_Exception e2
                  then (Inl e, logged WARNING (''Fallback also failed: '' @ str_exc e2) s2)
                  else (Inl e2, s2))"
proof -
  note sb = state_before_fallback_Inl[OF assms(1)]
  have S: "secondary_fetch E mgr rq
      (logged INFO (''Attempting fallback to '' @ fallback_source mgr)
        (logged WARNING (''Failed to fetch data from '' @ primary_source mgr
                              @ '': '' @ str_exc e) s1)) = (r2, s2)"
    using assms(4) unfolding sb .
  show ?thesis
    unfolding get_data_in_range_flat flat_def fallback_part_def
    using S by (simp add: assms(1,2,3) Let_def finish_def raise_def split: sum.splits)
qed

lemma flat_empty:
  assumes "primary_fetch E mgr rq s = (Inr [], s1)" and "enable_fallback mgr"
    and "secondary_fetch E mgr rq (state_before_fallback E mgr rq s) = (r2, s2)"
  shows "get_data_in_range E mgr rq s =
     (case r2 of
        Inr d \<Rightarrow> if d \<noteq> [] then
                   (Inr d, logged INFO (''Successfully fetched data from fallback source: ''
                                   @ fallback_source mgr) s2)
                 else (Inr [], s2)
      | Inl e2 \<Rightarrow> if is_Exception e2
                  then (Inr [], logged WARNING (''Fallback also failed: '' @ str_exc e2) s2)
                  else (Inl e2, s2))"
proof -
  note sb = state_before_fallback_Inr[OF assms(1)]
  have S: "secondary_fetch E mgr rq
      (logged INFO (''Attempting fallback to '' @ fallback_source mgr) s1) = (r2, s2)"
    using assms(3) unfolding sb .
  show ?thesis
    unfolding get_data_in_range_flat flat_def fallback_part_def
    using S by (simp add: assms(1,2) finish_def ret_def split: sum.splits)
qed

text \<open>
  Claim C2, as stated, fails: when the primary provider's fetch raises an \<open>Exception\<close> and
  the secondary's fetch raises an exception that is not an \<open>Exception\<close> (here
  \<open>KeyboardInterrupt\<close>), the clause \<open>except Exception\<close> around the fallback lets it
  through and the caller receives the secondary's exception.
\<close>

theorem both_fail_C2_counterexample:
  "fst (primary_fetch (scripted empty_config) ibkr_first aapl_news
          (fresh unreachable_then_interrupted)) = Inl (Exc ''ConnectionRefusedError'')
   \<and> enable_fallback ibkr_first
   \<and> fst (secondary_fetch (scripted empty_config) ibkr_first aapl_news
            (state_before_fallback (scripted empty_config) ibkr_first aapl_news
               (fresh unreachable_then_interrupted))) = Inl (BaseExc ''KeyboardInterrupt'')
   \<and> fst (get_data_in_range (scripted empty_config) ibkr_first aapl_news
            (fresh unreachable_then_interrupted)) = Inl (BaseExc ''KeyboardInterrupt'')"
  by code_simp

text \<open>
  Claim C2, amended. When the primary provider's fetch raises, fallback is enabled, and the
  secondary provider's fetch (in the state in which the fallback starts) raises an
  exception derived from \<open>Exception\<close>, \<open>get_data_in_range\<close> raises the primary's
  exception; when the secondary was invoked (the primary's exception being an
  \<open>Exception\<close>), its exception is logged as a warning and nothing else happens after its
  fetch.
\<close>

theorem both_fail_C2:
  assumes "fst (primary_fetch E mgr rq s) = Inl e1"
    and "enable_fallback mgr"
    and "fst (secondary_fetch E mgr rq (state_before_fallback E mgr rq s)) = Inl e2"
    and "is_Exception e2"
  shows "fst (get_data_in_range E mgr rq s) = Inl e1
    \<and> (is_Exception e1 \<longrightarrow>
         snd (get_data_in_range E mgr rq s)
           = logged WARNING (''Fallback also failed: '' @ str_exc e2)
               (snd (secondary_fetch E mgr rq (state_before_fallback E mgr rq s))))"
proof -
  obtain s1 where P: "primary_fetch E mgr rq s = (Inl e1, s1)"
    using assms(1) by (cases "primary_fetch E mgr rq s") simp
  obtain s2 where S: "secondary_fetch E mgr rq (state_before_fallback E mgr rq s) = (Inl e2, s2)"
    using assms(3) by (cases "secondary_fetch E mgr rq (state_before_fallback E mgr rq s)") simp
  show ?thesis
  proof (cases "is_Exception e1")
    case True
    have "get_data_in_range E mgr rq s
        = (Inl e1, logged WARNING (''Fallback also failed: '' @ str_exc e2) s2)"
      unfolding flat_caught[OF P True assms(2) S] by (simp add: assms(4))
    then show ?thesis by (simp add: S)
  next
    case False
    have "fst (get_data_in_range E mgr rq s) = Inl e1"
      unfolding get_data_in_range_flat flat_def by (simp add: P False)
    with False show ?thesis by simp
  qed
qed

theorem both_fail_C2_witness:
  "fst (primary_fetch (scripted empty_config) ibkr_first aapl_news
          (fresh unreachable_then_missing)) = Inl (Exc ''ConnectionRefusedError'')
   \<and> enable_fallback ibkr_first
   \<and> fst (secondary_fetch (scripted empty_config) ibkr_first aapl_news
            (state_before_fallback (scripted empty_config) ibkr_first aapl_news
               (fresh unreachable_then_missing))) = Inl (Exc ''FileNotFoundError'')
   \<and> is_Exception (Exc ''FileNotFoundError'')
   \<and> is_Exception (Exc ''ConnectionRefusedError'')
   \<and> fst (get_data_in_range (scripted empty_config) ibkr_first aapl_news
            (fresh unreachable_then_missing)) = Inl (Exc ''ConnectionRefusedError'')
   \<and> snd (get_data_in_range (scripted empty_config) ibkr_first aapl_news
            (fresh unreachable_then_missing))
       = logged WARNING (''Fallback also failed: '' @ str_exc (Exc ''FileNotFoundError''))
           (snd (secondary_fetch (scripted empty_config) ibkr_first aapl_news
                  (state_before_fallback (scripted empty_config) ibkr_first aapl_news
                     (fresh unreachable_then_missing))))"
proof -
  have h1: "fst (primary_fetch (scripted empty_config) ibkr_first aapl_news
          (fresh unreachable_then_missing)) = Inl (Exc ''ConnectionRefusedError'')"
    by code_simp
  have h2: "enable_fallback ibkr_first" by code_simp
  have h3: "fst (secondary_fetch (scripted empty_config) ibkr_first aapl_news
            (state_before_fallback (scripted empty_config) ibkr_first aapl_news
               (fresh unreachable_then_missing))) = Inl (Exc ''FileNotFoundError'')"
    by code_simp
  have h4: "is_Exception (Exc ''FileNotFoundError'')" by simp
  have h5: "is_Exception (Exc ''ConnectionRefusedError'')" by simp
  note c = both_fail_C2[OF h1 h2 h3 h4]
  show ?thesis
    by (intro conjI h1 h2 h3 h4 h5 conjunct1[OF c] mp[OF conjunct2[OF c] h5])
qed

text \<open>
  Claim C3, as stated, fails in its parenthesis: when the primary provider's fetch returns
  an empty result and the secondary's fetch raises an exception that is not an
  \<open>Exception\<close> (here \<open>KeyboardInterrupt\<close>), \<open>get_data_in_range\<close> raises it instead of
  returning an empty mapping.
\<close>

theorem empty_primary_C3_counterexample:
  "fst (primary_fetch (scripted empty_config) ibkr_first aapl_news
          (fresh interrupted_files)) = Inr []
   \<and> enable_fallback ibkr_first
   \<and> fst (secondary_fetch (scripted empty_config) ibkr_first aapl_news
            (state_before_fallback (scripted empty_config) ibkr_first aapl_news
               (fresh interrupted_files))) = Inl (BaseExc ''KeyboardInterrupt'')
   \<and> fst (get_data_in_range (scripted empty_config) ibkr_first aapl_news
            (fresh interrupted_files)) = Inl (BaseExc ''KeyboardInterrupt'')"
  by code_simp

text \<open>
  Claim C3, amended. When the primary provider's fetch returns an empty result without
  raising and fallback is enabled, the secondary provider's fetch is invoked, once and with
  the request's ticker and dates; if it also returns an empty result, or raises an
  exception derived from \<open>Exception\<close>, \<open>get_data_in_range\<close> returns an empty mapping
  and raises nothing.
\<close>

theorem empty_primary_C3:
  assumes "fst (primary_fetch E mgr rq s) = Inr []" and "enable_fallback mgr"
  shows "map fetch_args (secondary_fetches mgr (added s (snd (get_data_in_range E mgr rq s))))
      = [Some (ticker rq, start_date rq, end_date rq)]
    \<and> (fst (secondary_fetch E mgr rq (state_before_fallback E mgr rq s)) = Inr []
        \<or> fst (secondary_fetch E mgr rq (state_before_fallback E mgr rq s)) = Inl e2
          \<and> is_Exception e2
        \<longrightarrow> fst (get_data_in_range E mgr rq s) = Inr [])"
proof -
  obtain s1 where P: "primary_fetch E mgr rq s = (Inr [], s1)"
    using assms(1) by (cases "primary_fetch E mgr rq s") simp
  obtain r2 s2 where S: "secondary_fetch E mgr rq (state_before_fallback E mgr rq s) = (r2, s2)"
    by (cases "secondary_fetch E mgr rq (state_before_fallback E mgr rq s)")
  have "falls_back E mgr rq s"
    by (simp add: falls_back_def assms)
  then have a: "map fetch_args
      (secondary_fetches mgr (added s (snd (get_data_in_range E mgr rq s))))
      = [Some (ticker rq, start_date rq, end_date rq)]"
    by (rule falls_back_True_once)
  have b: "r2 = Inr [] \<or> r2 = Inl e2 \<and> is_Exception e2
      \<longrightarrow> fst (get_data_in_range E mgr rq s) = Inr []"
    unfolding flat_empty[OF P assms(2) S] by (cases r2) simp_all
  from a b show ?thesis by (simp add: S)
qed

theorem empty_primary_C3_witness:
  "fst (primary_fetch (scripted empty_config) ibkr_first aapl_news (fresh default_script))
      = Inr []
   \<and> enable_fallback ibkr_first
   \<and> fst (secondary_fetch (scripted empty_config) ibkr_first aapl_news
            (state_before_fallback (scripted empty_config) ibkr_first aapl_news
               (fresh default_script))) = Inr []
   \<and> map fetch_args (secondary_fetches ibkr_first
        (added (fresh default_script)
           (snd (get_data_in_range (scripted empty_config) ibkr_first aapl_news
                  (fresh default_script)))))
       = [Some (ticker aapl_news, start_date aapl_news, end_date aapl_news)]
   \<and> fst (get_data_in_range (scripted empty_config) ibkr_first aapl_news
            (fresh default_script)) = Inr []"
proof -
  have h1: "fst (primary_fetch (scripted empty_config) ibkr_first aapl_news
      (fresh default_script)) = Inr []"
    by code_simp
  have h2: "enable_fallback ibkr_first" by code_simp
  have h3: "fst (secondary_fetch (scripted empty_config) ibkr_first aapl_news
            (state_before_fallback (scripted empty_config) ibkr_first aapl_news
               (fresh default_script))) = Inr []"
    by code_simp
  note c = empty_primary_C3[OF h1 h2, of "Exc []"]
  show ?thesis
    by (intro conjI h1 h2 h3 conjunct1[OF c] mp[OF conjunct2[OF c]] disjI1)
qed

text \<open>
  Claim C4, as stated, fails: when the primary provider's fetch raises an exception that
  is not an \<open>Exception\<close> (here \<open>KeyboardInterrupt\<close>), the clause \<open>except Exception\<close>
  around it lets it through, and the secondary provider's fetch is not invoked although
  fallback is enabled.
\<close>

theorem primary_raises_C4_counterexample:
  "fst (primary_fetch (scripted empty_config) finnhub_first aapl_news
          (fresh interrupted_files)) = Inl (BaseExc ''KeyboardInterrupt'')
   \<and> enable_fallback finnhub_first
   \<and> secondary_fetches finnhub_first
        (added (fresh interrupted_files)
           (snd (get_data_in_range (scripted empty_config) finnhub_first aapl_news
                  (fresh interrupted_files)))) = []"
  by code_simp

text \<open>
  Claim C4, amended. When the primary provider's fetch raises an exception derived from
  \<open>Exception\<close> and fallback is enabled, the secondary provider's fetch is invoked exactly
  once, with the ticker, start date and end date of the request; and if it returns a
  non-empty result, that result is what \<open>get_data_in_range\<close> returns.
\<close>

theorem primary_raises_C4:
  assumes "fst (primary_fetch E mgr rq s) = Inl e1" and "is_Exception e1"
    and "enable_fallback mgr"
  shows "map fetch_args (secondary_fetches mgr (added s (snd (get_data_in_range E mgr rq s))))
      = [Some (ticker rq, start_date rq, end_date rq)]
    \<and> (fst (secondary_fetch E mgr rq (state_before_fallback E mgr rq s)) = Inr d \<and> d \<noteq> []
        \<longrightarrow> fst (get_data_in_range E mgr rq s) = Inr d)"
proof -
  obtain s1 where P: "primary_fetch E mgr rq s = (Inl e1, s1)"
    using assms(1) by (cases "primary_fetch E mgr rq s") simp
  obtain r2 s2 where S: "secondary_fetch E mgr rq (state_before_fallback E mgr rq s) = (r2, s2)"
    by (cases "secondary_fetch E mgr rq (state_before_fallback E mgr rq s)")
  have "falls_back E mgr rq s"
    by (simp add: falls_back_def assms)
  then have a: "map fetch_args
      (secondary_fetches mgr (added s (snd (get_data_in_range E mgr rq s))))
      = [Some (ticker rq, start_date rq, end_date rq)]"
    by (rule falls_back_True_once)
  have b: "r2 = Inr d \<and> d \<noteq> [] \<longrightarrow> fst (get_data_in_range E mgr rq s) = Inr d"
    unfolding flat_caught[OF P assms(2) assms(3) S] by (cases r2) simp_all
  from a b show ?thesis by (simp add: S)
qed

theorem primary_raises_C4_witness:
  "fst (primary_fetch (scripted empty_config) ibkr_first aapl_news
          (fresh unreachable_then_headline)) = Inl (Exc ''ConnectionRefusedError'')
   \<and> is_Exception (Exc ''ConnectionRefusedError'')
   \<and> enable_fallback ibkr_first
   \<and> fst (secondary_fetch (scripted empty_config) ibkr_first aapl_news
            (state_before_fallback (scripted empty_config) ibkr_first aapl_news
               (fresh unreachable_then_headline))) = Inr one_headline
   \<and> one_headline \<noteq> []
   \<and> map fetch_args (secondary_fetches ibkr_first
        (added (fresh unreachable_then_headline)
           (snd (get_data_in_range (scripted empty_config) ibkr_first aapl_news
                  (fresh unreachable_then_headline)))))
       = [Some (ticker aapl_news, start_date aapl_news, end_date aapl_news)]
   \<and> fst (get_data_in_range (scripted empty_config) ibkr_first aapl_news
            (fresh unreachable_then_headline)) = Inr one_headline"
proof -
  have h1: "fst (primary_fetch (scripted empty_config) ibkr_first aapl_news
          (fresh unreachable_then_headline)) = Inl (Exc ''ConnectionRefusedError'')"
    by code_simp
  have h2: "is_Exception (Exc ''ConnectionRefusedError'')" by simp
  have h3: "enable_fallback ibkr_first" by code_simp
  have h4: "fst (secondary_fetch (scripted empty_config) ibkr_first aapl_news
            (state_before_fallback (scripted empty_config) ibkr_first aapl_news
               (fresh unreachable_then_headline))) = Inr one_headline"
    by code_simp
  have h5: "one_headline \<noteq> []" by code_simp
  note c = primary_raises_C4[OF h1 h2 h3, of one_headline]
  show ?thesis
    by (intro conjI h1 h2 h3 h4 h5 conjunct1[OF c] mp[OF conjunct2[OF c]])
qed

subsection \<open>The claims about the broker module\<close>

text \<open>
  Claim C7. For a data kind other than \<open>news\<close>, \<open>historical\<close>, \<open>fundamentals\<close>,
  \<open>company_info\<close> and \<open>real_time\<close>, \<open>get_ibkr_data_in_range\<close> returns an empty result
  without raising, and all it does besides obtaining the module-level connection object is to
  log one warning.
\<close>

theorem unknown_kind_C7:
  assumes "kind \<notin> {''news'', ''historical'', ''fundamentals'', ''company_info'', ''real_time''}"
  shows "get_ibkr_data_in_range E tkr start_d end_d kind kw s
     = (Inr [], logged WARNING (''Unknown data type: '' @ kind) (snd (get_ibkr_connection E s)))"
proof -
  from assms have k: "kind \<noteq> ''news''" "kind \<noteq> ''historical''" "kind \<noteq> ''fundamentals''"
    "kind \<noteq> ''company_info''" "kind \<noteq> ''real_time''"
    by simp_all
  obtain c s1 where C: "get_ibkr_connection E s = (Inr c, s1)"
    by (cases "ibkr_connection s")
       (simp_all add: get_ibkr_connection_def bnd_def read_ibkr_connection_def
          write_ibkr_connection_def ret_def Let_def)
  show ?thesis
    unfolding get_ibkr_data_in_range_def
    by (simp only: bnd_def C k if_False try_except_Exception_def logger_def logged_def
        ret_def prod.case sum.case snd_conv)
qed

theorem unknown_kind_C7_witness:
  "''options'' \<notin> {''news'', ''historical'', ''fundamentals'', ''company_info'', ''real_time''}
   \<and> get_ibkr_data_in_range (scripted empty_config) ''AAPL'' ''2024-01-01'' ''2024-01-05''
        ''options'' [] (fresh default_script)
     = (Inr [], logged WARNING (''Unknown data type: '' @ ''options'')
                  (snd (get_ibkr_connection (scripted empty_config) (fresh default_script))))"
proof -
  have h: "''options'' \<notin> {''news'', ''historical'', ''fundamentals'', ''company_info'',
      ''real_time''}" by simp
  show ?thesis
    by (intro conjI h unknown_kind_C7[OF h])
qed








lemma returnsD: "returns Q m \<Longrightarrow> m s = (Inr a, s') \<Longrightarrow> Q a"
  unfolding returns_def by (elim allE) (erule mp)

lemma returns_ret: "Q a \<Longrightarrow> returns Q (ret a)"
  by (simp add: returns_def ret_def)

lemma returns_raise: "returns Q (raise e)"
  by (simp add: returns_def raise_def)

lemma returns_lift: "(\<And>a. r = Inr a \<Longrightarrow> Q a) \<Longrightarrow> returns Q (lift r)"
  by (simp add: returns_def lift_def)

lemma returns_bnd:
  assumes "returns R m" and "\<And>a. R a \<Longrightarrow> returns Q (f a)"
  shows "returns Q (bnd m f)"
  unfolding returns_def
proof (intro allI impI)
  fix s b s'
  assume run: "bnd m f s = (Inr b, s')"
  obtain r s1 where ms: "m s = (r, s1)" by (cases "m s")
  show "Q b"
  proof (cases r)
    case (Inl e)
    with run ms show ?thesis by (simp add: bnd_def)
  next
    case (Inr a)
    from assms(1) ms[unfolded Inr] have "R a" by (rule returnsD)
    from assms(2)[OF this] have "returns Q (f a)" .
    moreover from run ms Inr have "f a s1 = (Inr b, s')" by (simp add: bnd_def)
    ultimately show ?thesis by (rule returnsD)
  qed
qed

lemma returns_True: "returns (\<lambda>_. True) m"
  by (simp add: returns_def)

lemma returns_bnd_any: "(\<And>a. returns Q (f a)) \<Longrightarrow> returns Q (bnd m f)"
  by (rule returns_bnd[OF returns_True])

lemma returns_try:
  assumes "returns Q m" and "\<And>e. returns Q (h e)"
  shows "returns Q (try_except_Exception m h)"
  unfolding returns_def
proof (intro allI impI)
  fix s b s'
  assume run: "try_except_Exception m h s = (Inr b, s')"
  obtain r s1 where ms: "m s = (r, s1)" by (cases "m s")
  show "Q b"
  proof (cases r)
    case (Inr a)
    with run ms have "m s = (Inr b, s')" by (simp add: try_except_Exception_def)
    with assms(1) show ?thesis by (rule returnsD)
  next
    case (Inl e)
    with run ms have "h e s1 = (Inr b, s')"
      by (simp add: try_except_Exception_def split: if_splits)
    with assms(2)[of e] show ?thesis by (rule returnsD)
  qed
qed

lemma returns_if: "returns Q a \<Longrightarrow> returns Q b \<Longrightarrow> returns Q (if c then a else b)"
  by simp

lemma set_dict_keys_dict_set:
  "set (dict_keys (dict_set k v g)) = insert k (set (dict_keys g))"
proof (induction g)
  case Nil
  show ?case by (simp add: dict_keys_def)
next
  case (Cons kv g)
  obtain k' v' where kv: "kv = (k', v')" by (cases kv)
  show ?case
    using Cons.IH by (cases "k' = k") (simp_all add: kv dict_keys_def insert_commute)
qed

lemma dict_keys_dict_append: "dict_keys (dict_append k v g) = dict_keys g"
  by (induction g) (auto simp: dict_keys_def dict_append_def)

lemma keys_within_Nil: "keys_within a b []"
  by (simp add: keys_within_def dict_keys_def)

lemma keys_within_single: "a \<le> b \<Longrightarrow> keys_within a b [(b, v)]"
  by (simp add: keys_within_def dict_keys_def)

lemma keys_within_dict_set:
  "keys_within a b g \<Longrightarrow> a \<le> k \<Longrightarrow> k \<le> b \<Longrightarrow> keys_within a b (dict_set k v g)"
  by (simp add: keys_within_def set_dict_keys_dict_set)

lemma keys_within_dict_append:
  "keys_within a b g \<Longrightarrow> keys_within a b (dict_append k v g)"
  by (simp add: keys_within_def dict_keys_dict_append)

lemma group_articles_keys:
  "group_articles a b articles g = Inr g' \<Longrightarrow> keys_within a b g \<Longrightarrow> keys_within a b g'"
proof (induction articles arbitrary: g)
  case Nil
  then show ?case by simp
next
  case (Cons article articles)
  show ?case
  proof (cases "article_date_str article")
    case (Inl e)
    with Cons.prems(1) show ?thesis by simp
  next
    case (Inr date_str)
    let ?g = "(if a \<le> date_str \<and> date_str \<le> b
             then dict_append date_str (PyDict article)
                    (if date_str \<notin> set (dict_keys g)
                     then dict_set date_str [] g else g)
             else g)"
    from Cons.prems(1) Inr have run: "group_articles a b articles ?g = Inr g'" by simp
    have "keys_within a b ?g"
      using Cons.prems(2)
      by (simp add: keys_within_dict_append keys_within_dict_set)
    with run show ?thesis by (rule Cons.IH)
  qed
qed

lemma keys_within_map_PyList:
  "keys_within a b g \<Longrightarrow> keys_within a b (map (\<lambda>(k, l). (k, PyList l)) g)"
  by (simp add: keys_within_def dict_keys_def case_prod_unfold comp_def)

lemma foldl_rows_keys:
  "\<forall>x \<in> set xs. a \<le> fst x \<and> fst x \<le> b \<Longrightarrow> keys_within a b g \<Longrightarrow>
   keys_within a b
     (foldl (\<lambda>grouped_data (date_str, row).
               dict_set date_str (row_to_dict date_str row) grouped_data) g xs)"
proof (induction xs arbitrary: g)
  case Nil
  then show ?case by simp
next
  case (Cons x xs)
  obtain d row where x: "x = (d, row)" by (cases x)
  from Cons.prems(1) x have dr: "a \<le> d" "d \<le> b" by simp_all
  from Cons.prems(1) have rest: "\<forall>x \<in> set xs. a \<le> fst x \<and> fst x \<le> b" by simp
  have "keys_within a b (dict_set d (row_to_dict d row) g)"
    using Cons.prems(2) dr by (rule keys_within_dict_set)
  from Cons.IH[OF rest this] show ?case by (simp add: x)
qed

lemma group_rows_keys: "keys_within a b (group_rows a b rows)"
  unfolding group_rows_def Let_def
  by (rule foldl_rows_keys) (auto simp: keys_within_Nil)

lemma returns_grouping:
  "returns (keys_within a b)
     (bnd (lift (group_articles a b articles []))
        (\<lambda>grouped_data. ret (map (\<lambda>(k, l). (k, PyList l)) grouped_data)))"
proof (rule returns_bnd[where R = "\<lambda>g. keys_within a b g"])
  show "returns (keys_within a b) (lift (group_articles a b articles []))"
    by (rule returns_lift) (erule group_articles_keys, rule keys_within_Nil)
next
  fix g :: "(pyval list) pydict"
  assume "keys_within a b g"
  then show "returns (keys_within a b) (ret (map (\<lambda>(k, l). (k, PyList l)) g))"
    by (intro returns_ret keys_within_map_PyList)
qed

lemma returns_rows:
  "returns (keys_within a b)
     (case df of
        None \<Rightarrow> raise e
      | Some rows \<Rightarrow> if rows \<noteq> [] then ret (group_rows a b rows) else ret [])"
  by (cases df) (simp_all add: returns_raise returns_ret group_rows_keys keys_within_Nil)

lemma returns_end_date:
  "a \<le> b \<Longrightarrow> returns (keys_within a b) (ret (if x \<noteq> [] then [(b, v)] else []))"
  by (simp add: returns_ret keys_within_single keys_within_Nil)

lemma returns_get_ibkr_data_in_range:
  assumes "a \<le> b"
  shows "returns (keys_within a b) (get_ibkr_data_in_range E tkr a b kind kw)"
  unfolding get_ibkr_data_in_range_def Let_def
  by (intro returns_grouping returns_rows returns_end_date[OF assms] returns_raise
      returns_bnd_any returns_try returns_if returns_ret keys_within_Nil)

text \<open>
  Claim C9. When \<open>start_date \<le> end_date\<close> (as strings, which for ISO 8601 dates is the
  order of the dates), every key of a mapping that \<open>get_ibkr_data_in_range\<close> returns lies
  between \<open>start_date\<close> and \<open>end_date\<close>, both included: news and historical results are
  filtered to the range, the other kinds use \<open>end_date\<close> as their only key, and an
  unknown kind gives no key.
\<close>

theorem keys_in_range_C9:
  assumes "start_d \<le> end_d"
    and "fst (get_ibkr_data_in_range E tkr start_d end_d kind kw s) = Inr d"
  shows "\<forall>k \<in> set (dict_keys d). start_d \<le> k \<and> k \<le> end_d"
proof -
  obtain s' where "get_ibkr_data_in_range E tkr start_d end_d kind kw s = (Inr d, s')"
    using assms(2) by (cases "get_ibkr_data_in_range E tkr start_d end_d kind kw s") simp
  with returns_get_ibkr_data_in_range[OF assms(1)] have "keys_within start_d end_d d"
    by (rule returnsD)
  then show ?thesis by (simp add: keys_within_def)
qed

theorem keys_in_range_C9_witness:
  "''2024-01-01'' \<le> ''2024-01-05''
   \<and> fst (get_ibkr_data_in_range (scripted empty_config) ''AAPL'' ''2024-01-01'' ''2024-01-05''
            ''news'' [] (fresh news_gateway))
       = Inr [(''2024-01-03'', PyList [PyDict (news_article_dict january_headline)])]
   \<and> ''2024-01-03'' \<in> set (dict_keys
         [(''2024-01-03'', PyList [PyDict (news_article_dict january_headline)])])
   \<and> ''2024-01-01'' \<le> ''2024-01-03'' \<and> ''2024-01-03'' \<le> ''2024-01-05''"
proof -
  have h1: "''2024-01-01'' \<le> ''2024-01-05''" by simp
  have h2: "fst (get_ibkr_data_in_range (scripted empty_config) ''AAPL'' ''2024-01-01''
      ''2024-01-05'' ''news'' [] (fresh news_gateway))
       = Inr [(''2024-01-03'', PyList [PyDict (news_article_dict january_headline)])]"
    by code_simp
  have h3: "''2024-01-03'' \<in> set (dict_keys
         [(''2024-01-03'', PyList [PyDict (news_article_dict january_headline)])])"
    by (simp add: dict_keys_def)
  note c = bspec[OF keys_in_range_C9[OF h1 h2] h3]
  show ?thesis
    by (intro conjI h1 h2 h3 conjunct1[OF c] conjunct2[OF c])
qed

lemma basic_no_query: "basic ev \<Longrightarrow> no_query ev"
  by (cases ev) (simp_all add: no_query_def)

lemma anchored_no_query: "list_all no_query evs \<Longrightarrow> anchored n seen evs"
  by (induction evs arbitrary: seen) (simp_all add: no_query_def)

lemma anchored_skip:
  "list_all no_query pre \<Longrightarrow> anchored n seen (pre @ rest) = anchored n (rev pre @ seen) rest"
  by (induction pre arbitrary: seen) (simp_all add: no_query_def)

lemma anchored_block:
  assumes "datetime_sub_days t1 n = Inr st" and "list_all no_query post"
  shows "anchored n seen ([Now t1, Now t2, ReqHistoricalNews c p st t2 k] @ post)"
  using assms anchored_no_query[OF assms(2)]
  by (simp add: anchored_query_def)

lemma news_query_shape_anchored:
  assumes "news_query_shape n evs"
  shows "windows_anchored n evs"
proof -
  from assms consider (a) "list_all no_query evs"
    | (b) pre t1 t2 c p st k post where
        "evs = pre @ [Now t1, Now t2, ReqHistoricalNews c p st t2 k] @ post"
        "list_all no_query pre" "list_all no_query post" "datetime_sub_days t1 n = Inr st"
    unfolding news_query_shape_def by (elim disjE exE conjE)
  then show ?thesis
  proof cases
    case a
    then show ?thesis unfolding windows_anchored_def by (rule anchored_no_query)
  next
    case b
    show ?thesis
      unfolding windows_anchored_def b(1) anchored_skip[OF b(2)]
      by (rule anchored_block[OF b(4) b(3)])
  qed
qed

lemma shape_plain: "list_all no_query xs \<Longrightarrow> news_query_shape n xs"
  unfolding news_query_shape_def by (rule disjI1)

lemma shape_block:
  assumes "datetime_sub_days t1 n = Inr st"
  shows "news_query_shape n [Now t1, Now t2, ReqHistoricalNews c p st t2 k]"
proof -
  have e: "[Now t1, Now t2, ReqHistoricalNews c p st t2 k]
      = [] @ [Now t1, Now t2, ReqHistoricalNews c p st t2 k] @ []" by simp
  show ?thesis
    unfolding news_query_shape_def
    by (rule disjI2, intro exI conjI, rule e) (simp_all add: assms)
qed

lemma shape_pre:
  assumes "list_all no_query xs" and "news_query_shape n ys"
  shows "news_query_shape n (xs @ ys)"
proof -
  from assms(2) consider (a) "list_all no_query ys"
    | (b) pre t1 t2 c p st k post where
        "ys = pre @ [Now t1, Now t2, ReqHistoricalNews c p st t2 k] @ post"
        "list_all no_query pre" "list_all no_query post" "datetime_sub_days t1 n = Inr st"
    unfolding news_query_shape_def by (elim disjE exE conjE)
  then show ?thesis
  proof cases
    case a
    with assms(1) show ?thesis by (intro shape_plain) simp
  next
    case b
    have e: "xs @ ys = (xs @ pre) @ [Now t1, Now t2, ReqHistoricalNews c p st t2 k] @ post"
      by (simp add: b(1))
    show ?thesis
      unfolding news_query_shape_def
      by (rule disjI2, intro exI conjI, rule e) (simp_all add: assms(1) b)
  qed
qed

lemma shape_post:
  assumes "news_query_shape n xs" and "list_all no_query ys"
  shows "news_query_shape n (xs @ ys)"
proof -
  from assms(1) consider (a) "list_all no_query xs"
    | (b) pre t1 t2 c p st k post where
        "xs = pre @ [Now t1, Now t2, ReqHistoricalNews c p st t2 k] @ post"
        "list_all no_query pre" "list_all no_query post" "datetime_sub_days t1 n = Inr st"
    unfolding news_query_shape_def by (elim disjE exE conjE)
  then show ?thesis
  proof cases
    case a
    with assms(2) show ?thesis by (intro shape_plain) simp
  next
    case b
    have e: "xs @ ys = pre @ [Now t1, Now t2, ReqHistoricalNews c p st t2 k] @ (post @ ys)"
      by (simp add: b(1))
    show ?thesis
      unfolding news_query_shape_def
      by (rule disjI2, intro exI conjI, rule e) (simp_all add: assms(2) b)
  qed
qed

lemma query_plain: "emits no_query m \<Longrightarrow> adds (news_query_shape n) m"
proof (rule addsI)
  fix s
  assume "emits no_query m"
  then have "adds (list_all no_query) m" by (simp add: emits_def)
  from addsD[OF this, of s] obtain evs where
    "trace (snd (m s)) = trace s @ evs" "list_all no_query evs" by (elim exE conjE)
  then show "\<exists>evs. trace (snd (m s)) = trace s @ evs \<and> news_query_shape n evs"
    by (intro exI conjI shape_plain)
qed

lemma query_bnd_pre:
  assumes "emits no_query m" and "\<And>a. adds (news_query_shape n) (f a)"
  shows "adds (news_query_shape n) (bnd m f)"
proof (rule adds_bnd[where ?S1.0 = "list_all no_query" and ?S2.0 = "news_query_shape n"])
  from assms(1) show "adds (list_all no_query) m" by (simp add: emits_def)
qed (simp_all add: assms(2) shape_plain shape_pre)

lemma query_bnd_post:
  assumes "adds (news_query_shape n) m" and "\<And>a. emits no_query (f a)"
  shows "adds (news_query_shape n) (bnd m f)"
proof (rule adds_bnd[where ?S1.0 = "news_query_shape n" and ?S2.0 = "list_all no_query"])
  fix a from assms(2)[of a] show "adds (list_all no_query) (f a)" by (simp add: emits_def)
qed (simp_all add: assms(1) shape_post)

lemma query_try_post:
  assumes "adds (news_query_shape n) m" and "\<And>e. emits no_query (h e)"
  shows "adds (news_query_shape n) (try_except_Exception m h)"
proof (rule adds_try[where ?S1.0 = "news_query_shape n" and ?S2.0 = "list_all no_query"])
  fix e from assms(2)[of e] show "adds (list_all no_query) (h e)" by (simp add: emits_def)
qed (simp_all add: assms(1) shape_post)

lemma adds_list_case:
  "adds S a \<Longrightarrow> (\<And>x xs. adds S (f x xs)) \<Longrightarrow> adds S (case l of [] \<Rightarrow> a | x # xs \<Rightarrow> f x xs)"
  by (cases l) simp_all

lemma query_inner:
  "adds (news_query_shape n)
     (bnd (now E)
        (\<lambda>t1. bnd (lift (timedelta_days n))
        (\<lambda>delta. bnd (lift (datetime_sub_days t1 delta))
        (\<lambda>startDateTime. bnd (now E)
        (\<lambda>endDateTime.
           bnd (ext (ReqHistoricalNews c p startDateTime endDateTime 100)
                  (IB_reqHistoricalNewsAsync E c p startDateTime endDateTime 100))
        (\<lambda>articles. ret (map news_article_dict articles)))))))"
proof (rule addsI)
  fix s :: "('a, 'b) io_scheme"
  let ?m = "bnd (now E)
        (\<lambda>t1. bnd (lift (timedelta_days n))
        (\<lambda>delta. bnd (lift (datetime_sub_days t1 delta))
        (\<lambda>startDateTime. bnd (now E)
        (\<lambda>endDateTime.
           bnd (ext (ReqHistoricalNews c p startDateTime endDateTime 100)
                  (IB_reqHistoricalNewsAsync E c p startDateTime endDateTime 100))
        (\<lambda>articles. ret (map news_article_dict articles))))))"
  obtain t1 w1 where n1: "datetime_now E (world s) = (t1, w1)"
    by (cases "datetime_now E (world s)")
  let ?s1 = "s\<lparr>world := w1, trace := trace s @ [Now t1]\<rparr>"
  have now1: "now E s = (Inr t1, ?s1)" by (simp add: now_def n1)
  have one: "news_query_shape n [Now t1]"
    by (rule shape_plain) (simp add: no_query_def)
  have early: "trace (snd (?m s)) = trace s @ [Now t1]
    \<Longrightarrow> \<exists>evs. trace (snd (?m s)) = trace s @ evs \<and> news_query_shape n evs"
    using one by (intro exI conjI)
  show "\<exists>evs. trace (snd (?m s)) = trace s @ evs \<and> news_query_shape n evs"
  proof (cases "\<bar>n\<bar> \<le> 999999999")
    case False
    then have "trace (snd (?m s)) = trace s @ [Now t1]"
      by (simp add: bnd_def now1 lift_def timedelta_days_def)
    then show ?thesis by (rule early)
  next
    case True
    show ?thesis
    proof (cases "datetime_sub_days t1 n")
      case (Inl e)
      with True have "trace (snd (?m s)) = trace s @ [Now t1]"
        by (simp add: bnd_def now1 lift_def timedelta_days_def)
      then show ?thesis by (rule early)
    next
      case (Inr st)
      obtain t2 w2 where n2: "datetime_now E w1 = (t2, w2)"
        by (cases "datetime_now E w1")
      have now2: "now E ?s1 = (Inr t2, ?s1\<lparr>world := w2, trace := trace ?s1 @ [Now t2]\<rparr>)"
        by (simp add: now_def n2)
      obtain r w3 where q: "IB_reqHistoricalNewsAsync E c p st t2 100 w2 = (r, w3)"
        by (cases "IB_reqHistoricalNewsAsync E c p st t2 100 w2")
      from True Inr have "trace (snd (?m s))
          = trace s @ [Now t1, Now t2, ReqHistoricalNews c p st t2 100]"
        by (cases r) (simp_all add: bnd_def now1 now2 lift_def timedelta_days_def ext_def q
            ret_def)
      with shape_block[OF Inr, of t2 c p 100] show ?thesis by (intro exI conjI)
    qed
  qed
qed

lemma query_get_news_articles: "adds (news_query_shape n) (get_news_articles E t n)"
  unfolding get_news_articles_def Let_def
  apply (rule query_bnd_pre)
   apply (rule emits_connect_unless_connected)
   apply (erule basic_no_query)
  apply (rule query_bnd_pre)
   apply (rule emits_ext)
   apply (simp add: no_query_def)
  apply (rule adds_list_case)
   apply (rule query_plain)
   apply (rule emits_ret)
  apply (rule query_try_post)
   apply (rule query_bnd_pre)
    apply (rule emits_ext)
    apply (simp add: no_query_def)
   apply (rule adds_list_case)
    apply (rule query_plain)
    apply (rule emits_ret)
   apply (rule query_inner)
  apply (intro emits_rules emits_logger)
  apply (simp add: no_query_def)
  done

lemma bnd_lift_Inr: "bnd (lift (Inr x)) f = f x"
  by (rule ext) (simp add: bnd_def lift_def)

lemma query_news_branch:
  assumes "strptime_ymd start_d = Inr start_dt" and "strptime_ymd end_d = Inr end_dt"
  shows "adds (news_query_shape (sub_days end_dt start_dt))
     (get_ibkr_data_in_range E tkr start_d end_d ''news'' kw)"
  unfolding get_ibkr_data_in_range_def Let_def
  apply (simp only: assms bnd_lift_Inr refl if_True)
  apply (rule query_bnd_pre)
   apply (rule emits_get_ibkr_connection)
  apply (rule query_try_post)
   apply (rule query_bnd_post)
    apply (rule adds_call_method)
    apply (rule query_get_news_articles)
   apply (intro emits_rules)
  apply (intro emits_rules emits_logger)
  apply (simp add: no_query_def)
  done

lemma strptime_ymd_midnight:
  assumes "strptime_ymd s = Inr t"
  shows "dt_hour t = 0 \<and> dt_minute t = 0 \<and> dt_second t = 0 \<and> dt_microsecond t = 0"
  using assms
  by (auto simp add: strptime_ymd_def split: option.splits prod.splits if_splits)

lemma sub_days_midnight:
  assumes "dt_hour a = 0 \<and> dt_minute a = 0 \<and> dt_second a = 0 \<and> dt_microsecond a = 0"
    and "dt_hour b = 0 \<and> dt_minute b = 0 \<and> dt_second b = 0 \<and> dt_microsecond b = 0"
  shows "sub_days a b = toordinal a - toordinal b"
proof -
  have "microseconds_of a - microseconds_of b = (toordinal a - toordinal b) * 86400000000"
    using assms by (simp add: microseconds_of_def algebra_simps)
  then show ?thesis by (simp add: sub_days_def)
qed

lemma returns_news_branch:
  assumes "strptime_ymd a = Inr start_dt" and "strptime_ymd b = Inr end_dt"
  shows "returns (grouped_from a b) (get_ibkr_data_in_range E tkr a b ''news'' kw)"
  unfolding get_ibkr_data_in_range_def Let_def
  apply (simp only: assms bnd_lift_Inr refl if_True)
  apply (rule returns_bnd_any)
  apply (rule returns_try)
   apply (rule returns_bnd_any)
   apply (rule returns_bnd[where R = "\<lambda>g. \<exists>articles. group_articles a b articles [] = Inr g"])
    apply (rule returns_lift)
    apply (erule exI)
   apply (rule returns_ret)
   apply (unfold grouped_from_def)
   apply (erule exE)
   apply (intro exI conjI)
    apply assumption
   apply (rule refl)
  apply (rule returns_bnd_any)
  apply (rule returns_raise)
  done

text \<open>
  Claim C10. For the kind \<open>news\<close>, with both dates parsed, the number of days asked of
  \<open>get_news_articles\<close> is the difference of the two dates in days; every news query the
  run sends to the gateway comes right after two readings of the clock, starts that number
  of days before the first reading and ends at the second, so the window hangs on the
  current time and on the length of the requested range only; and a mapping returned is the
  grouping by date of a list of articles, filtered to the requested range.
\<close>

theorem news_window_C10:
  assumes "strptime_ymd start_d = Inr start_dt" and "strptime_ymd end_d = Inr end_dt"
  shows "sub_days end_dt start_dt = toordinal end_dt - toordinal start_dt
    \<and> windows_anchored (toordinal end_dt - toordinal start_dt)
        (added s (snd (get_ibkr_data_in_range E tkr start_d end_d ''news'' kw s)))
    \<and> (fst (get_ibkr_data_in_range E tkr start_d end_d ''news'' kw s) = Inr d
        \<longrightarrow> grouped_from start_d end_d d)"
proof -
  let ?run = "get_ibkr_data_in_range E tkr start_d end_d ''news'' kw s"
  have days: "sub_days end_dt start_dt = toordinal end_dt - toordinal start_dt"
    by (rule sub_days_midnight) (rule strptime_ymd_midnight, rule assms)+
  from query_news_branch[OF assms]
  have "adds (news_query_shape (sub_days end_dt start_dt))
      (get_ibkr_data_in_range E tkr start_d end_d ''news'' kw)" .
  from addsD[OF this, where s = s] obtain evs where
    evs: "trace (snd ?run) = trace s @ evs" "news_query_shape (sub_days end_dt start_dt) evs"
    by (elim exE conjE)
  have "added s (snd ?run) = evs"
    by (rule added_append) (rule evs(1))
  with news_query_shape_anchored[OF evs(2)]
  have win: "windows_anchored (toordinal end_dt - toordinal start_dt) (added s (snd ?run))"
    by (simp add: days)
  have res: "fst ?run = Inr d \<longrightarrow> grouped_from start_d end_d d"
  proof
    assume "fst ?run = Inr d"
    then obtain s' where "?run = (Inr d, s')" by (cases ?run) simp
    with returns_news_branch[OF assms] show "grouped_from start_d end_d d"
      by (rule returnsD)
  qed
  from days win res show ?thesis by (intro conjI)
qed

theorem news_window_C10_witness:
  "strptime_ymd ''2024-01-01'' = Inr (Datetime 2024 1 1 0 0 0 0)
   \<and> strptime_ymd ''2024-01-05'' = Inr (Datetime 2024 1 5 0 0 0 0)
   \<and> sub_days (Datetime 2024 1 5 0 0 0 0) (Datetime 2024 1 1 0 0 0 0) = 4
   \<and> toordinal (Datetime 2024 1 5 0 0 0 0) - toordinal (Datetime 2024 1 1 0 0 0 0) = 4
   \<and> windows_anchored 4
        (added (fresh news_gateway)
           (snd (get_ibkr_data_in_range (scripted empty_config) ''AAPL'' ''2024-01-01''
                   ''2024-01-05'' ''news'' [] (fresh news_gateway))))
   \<and> ReqHistoricalNews 265598 ''BRFG'' (Datetime 2024 1 2 12 0 0 0)
          (Datetime 2024 1 6 12 0 0 250000) 100
        \<in> set (added (fresh news_gateway)
           (snd (get_ibkr_data_in_range (scripted empty_config) ''AAPL'' ''2024-01-01''
                   ''2024-01-05'' ''news'' [] (fresh news_gateway))))
   \<and> fst (get_ibkr_data_in_range (scripted empty_config) ''AAPL'' ''2024-01-01''
            ''2024-01-05'' ''news'' [] (fresh news_gateway))
       = Inr [(''2024-01-03'', PyList [PyDict (news_article_dict january_headline)])]
   \<and> grouped_from ''2024-01-01'' ''2024-01-05''
        [(''2024-01-03'', PyList [PyDict (news_article_dict january_headline)])]"
proof -
  have h1: "strptime_ymd ''2024-01-01'' = Inr (Datetime 2024 1 1 0 0 0 0)" by code_simp
  have h2: "strptime_ymd ''2024-01-05'' = Inr (Datetime 2024 1 5 0 0 0 0)" by code_simp
  have h3: "fst (get_ibkr_data_in_range (scripted empty_config) ''AAPL'' ''2024-01-01''
            ''2024-01-05'' ''news'' [] (fresh news_gateway))
       = Inr [(''2024-01-03'', PyList [PyDict (news_article_dict january_headline)])]"
    by code_simp
  have h4: "toordinal (Datetime 2024 1 5 0 0 0 0) - toordinal (Datetime 2024 1 1 0 0 0 0) = 4"
    by code_simp
  have h5: "ReqHistoricalNews 265598 ''BRFG'' (Datetime 2024 1 2 12 0 0 0)
          (Datetime 2024 1 6 12 0 0 250000) 100
        \<in> set (added (fresh news_gateway)
           (snd (get_ibkr_data_in_range (scripted empty_config) ''AAPL'' ''2024-01-01''
                   ''2024-01-05'' ''news'' [] (fresh news_gateway))))"
    by code_simp
  note c = news_window_C10[OF h1 h2, where s = "fresh news_gateway"
      and E = "scripted empty_config" and tkr = "''AAPL''" and kw = "[]"
      and d = "[(''2024-01-03'', PyList [PyDict (news_article_dict january_headline)])]"]
  have days: "sub_days (Datetime 2024 1 5 0 0 0 0) (Datetime 2024 1 1 0 0 0 0) = 4"
    using conjunct1[OF c] h4 by simp
  have win: "windows_anchored 4
        (added (fresh news_gateway)
           (snd (get_ibkr_data_in_range (scripted empty_config) ''AAPL'' ''2024-01-01''
                   ''2024-01-05'' ''news'' [] (fresh news_gateway))))"
    using conjunct1[OF conjunct2[OF c]] unfolding h4 .
  show ?thesis
    by (intro conjI h1 h2 h3 h4 h5 days win mp[OF conjunct2[OF conjunct2[OF c]] h3])
qed

end
